theory Spec2Isabelle
  imports Complex_Main
begin

section \<open>The platform seen by the two alarm drivers\<close>

text \<open>
  The repository holds two Python modules, \<^verbatim>\<open>functions/piezo_alarm.py\<close> and
  \<^verbatim>\<open>functions/neopixel_alarm.py\<close>. Both are blocking timing loops over an external
  library (RPi.GPIO, the neopixel strip) and \<^verbatim>\<open>time\<close>. The embedding threads one
  explicit world through every function: the wall clock, the record of the calls made to
  the outside, the physical output, and the module globals of both drivers.

  Python floats are idealised as reals, and the clock advances by the executed sleeps
  only. Every call to the outside may raise: the world carries an oracle \<open>faulty\<close>
  saying, for the k-th external call of the run, whether that call raises. A call that
  raises is recorded in the trace and has no effect on the device. The outcome of the
  imports at module load is a boolean: the import succeeded, or it raised an
  \<^verbatim>\<open>Exception\<close>. Printing never raises.
\<close>

datatype level = LOW | HIGH

datatype gpio_mode = BCM | BOARD

datatype direction = OUT | INP

type_synonym color = "int \<times> int \<times> int"

datatype exn = ValueError | AttributeError | Raised nat

datatype strip = NeoPixel (strip_pin: "nat option") (strip_n: nat)
  (strip_brightness: real) (strip_auto_write: bool)

datatype call =
    Setmode gpio_mode
  | Setup nat direction
  | Output nat level
  | Cleanup nat
  | New strip
  | Fill color
  | Show
  | Sleep real
  | Print string

record world =
  now :: real
  trace :: "call list"
  calls :: nat
  faulty :: "nat \<Rightarrow> bool"
  pin :: level
  buffer :: "color list"
  leds :: "color list"
  RPI_AVAILABLE :: bool
  initialized :: bool
  NEOPIXEL_AVAILABLE :: bool
  pixels :: "strip option"

text \<open>
  \<open>now\<close> is \<^verbatim>\<open>time.time()\<close>; \<open>trace\<close> lists the external calls and the printed lines,
  oldest first; \<open>calls\<close> counts the external calls made so far (prints excluded);
  \<open>pin\<close> is the level of the piezo pin; \<open>buffer\<close> is the staged colour of each pixel
  and \<open>leds\<close> what the strip displays; \<open>initialized\<close> is the global \<^verbatim>\<open>_initialized\<close> and
  \<open>pixels\<close> the global \<^verbatim>\<open>_pixels\<close> (\<open>None\<close> as in Python).
\<close>

type_synonym 'a action = "world \<Rightarrow> (exn + 'a) \<times> world"

definition ret :: "'a \<Rightarrow> 'a action" where
  "ret v w = (Inr v, w)"

definition bindE :: "'a action \<Rightarrow> ('a \<Rightarrow> 'b action) \<Rightarrow> 'b action" where
  "bindE m f w = (case m w of (Inl e, w1) \<Rightarrow> (Inl e, w1) | (Inr v, w1) \<Rightarrow> f v w1)"

definition andthen :: "'a action \<Rightarrow> 'b action \<Rightarrow> 'b action" where
  "andthen m k = bindE m (\<lambda>v. k)"

definition extern :: "call \<Rightarrow> (world \<Rightarrow> world) \<Rightarrow> unit action" where
  "extern c effect w =
     (let w1 = w\<lparr>trace := trace w @ [c], calls := Suc (calls w)\<rparr>
      in if faulty w (calls w) then (Inl (Raised (calls w)), w1) else (Inr (), effect w1))"

text \<open>\<^verbatim>\<open>time.sleep(secs)\<close> raises ValueError for a negative argument.\<close>

definition time_sleep :: "real \<Rightarrow> unit action" where
  "time_sleep secs w =
     (if secs < 0
      then (Inl ValueError, w\<lparr>trace := trace w @ [Sleep secs], calls := Suc (calls w)\<rparr>)
      else extern (Sleep secs) (\<lambda>v. v\<lparr>now := now v + secs\<rparr>) w)"

definition print :: "string \<Rightarrow> unit action" where
  "print s w = (Inr (), w\<lparr>trace := trace w @ [Print s]\<rparr>)"

text \<open>\<^verbatim>\<open>for _ in range(n): body\<close>; a negative \<open>n\<close> gives the empty range.\<close>

fun repeat :: "nat \<Rightarrow> unit action \<Rightarrow> unit action" where
  "repeat 0 body = ret ()"
| "repeat (Suc k) body = andthen body (repeat k body)"

definition for_range :: "int \<Rightarrow> unit action \<Rightarrow> unit action" where
  "for_range n body = repeat (nat n) body"

text \<open>
  \<^verbatim>\<open>while (time.time() - start) < duration: body\<close>. The loop need not end, so not
  returning is the value \<open>None\<close>; an exception of the body leaves the loop.
\<close>

partial_function (option) while_elapsed ::
  "real \<Rightarrow> real \<Rightarrow> unit action \<Rightarrow> world \<Rightarrow> ((exn + unit) \<times> world) option" where
  "while_elapsed start duration body w =
     (if now w - start < duration then
        (case body w of
           (Inl e, w1) \<Rightarrow> Some (Inl e, w1)
         | (Inr u, w1) \<Rightarrow> while_elapsed start duration body w1)
      else Some (Inr (), w))"

declare while_elapsed.simps [code]

text \<open>
  The same loop cut off after \<open>n\<close> iterations: \<open>None\<close> when the loop test still holds
  after the \<open>n\<close>-th iteration. It measures how many iterations a run takes.
\<close>

fun unroll :: "nat \<Rightarrow> real \<Rightarrow> real \<Rightarrow> unit action \<Rightarrow> world \<Rightarrow> ((exn + unit) \<times> world) option" where
  "unroll 0 start duration body w =
     (if now w - start < duration then None else Some (Inr (), w))"
| "unroll (Suc n) start duration body w =
     (if now w - start < duration then
        (case body w of
           (Inl e, w1) \<Rightarrow> Some (Inl e, w1)
         | (Inr u, w1) \<Rightarrow> unroll n start duration body w1)
      else Some (Inr (), w))"

text \<open>
  \<^verbatim>\<open>try: body finally: fin\<close>. The final block runs on every exit of the body; an
  exception of the final block replaces the outcome of the body.
\<close>

definition try_finally ::
  "(world \<Rightarrow> ((exn + unit) \<times> world) option) \<Rightarrow> unit action \<Rightarrow> world \<Rightarrow> ((exn + unit) \<times> world) option" where
  "try_finally body fin w =
     (case body w of
        None \<Rightarrow> None
      | Some (r, w1) \<Rightarrow>
          (case fin w1 of (Inl e, w2) \<Rightarrow> Some (Inl e, w2) | (Inr u, w2) \<Rightarrow> Some (r, w2)))"

section \<open>piezo\_alarm.py\<close>

definition PIEZO_PIN :: nat where
  "PIEZO_PIN = 4"

text \<open>
  Module load: \<^verbatim>\<open>RPI_AVAILABLE = True; try: import RPi.GPIO as GPIO
  except Exception: RPI_AVAILABLE = False; GPIO = MockGPIO()\<close>, then
  \<^verbatim>\<open>_initialized = False\<close>. \<open>import_ok\<close> says whether the import succeeded.
\<close>

definition piezo_alarm_module :: "bool \<Rightarrow> world \<Rightarrow> world" where
  "piezo_alarm_module import_ok w = w\<lparr>RPI_AVAILABLE := import_ok, initialized := False\<rparr>"

text \<open>
  The module's name \<^verbatim>\<open>GPIO\<close>: the library when the import succeeded, else the
  \<^verbatim>\<open>MockGPIO\<close> instance, whose methods are all \<^verbatim>\<open>pass\<close>.
\<close>

definition GPIO_setmode :: "gpio_mode \<Rightarrow> unit action" where
  "GPIO_setmode m w = (if RPI_AVAILABLE w then extern (Setmode m) (\<lambda>v. v) w else (Inr (), w))"

definition GPIO_setup :: "nat \<Rightarrow> direction \<Rightarrow> unit action" where
  "GPIO_setup p d w = (if RPI_AVAILABLE w then extern (Setup p d) (\<lambda>v. v) w else (Inr (), w))"

definition GPIO_output :: "nat \<Rightarrow> level \<Rightarrow> unit action" where
  "GPIO_output p l w =
     (if RPI_AVAILABLE w
      then extern (Output p l) (\<lambda>v. if p = PIEZO_PIN then v\<lparr>pin := l\<rparr> else v) w
      else (Inr (), w))"

definition GPIO_cleanup :: "nat \<Rightarrow> unit action" where
  "GPIO_cleanup p w = (if RPI_AVAILABLE w then extern (Cleanup p) (\<lambda>v. v) w else (Inr (), w))"

definition init_gpio :: "unit action" where
  "init_gpio w =
     (if initialized w then (Inr (), w)
      else if \<not> RPI_AVAILABLE w then (Inr (), w)
      else andthen (GPIO_setmode BCM)
            (andthen (GPIO_setup PIEZO_PIN OUT)
              (andthen (GPIO_output PIEZO_PIN LOW)
                (\<lambda>v. (Inr (), v\<lparr>initialized := True\<rparr>)))) w)"

definition piezo_mock_notice :: string where
  "piezo_mock_notice =
     ''[piezo_alarm MOCK] alarm() called '' @ [CHR 0xE2, CHR 0x80, CHR 0x93] @
     '' GPIO not available on this platform, doing nothing.''"

text \<open>One pass of the body of the \<^verbatim>\<open>for\<close> loop of \<^verbatim>\<open>alarm\<close>.\<close>

definition one_beep :: "real \<Rightarrow> real \<Rightarrow> unit action" where
  "one_beep beep_on_time beep_off_time =
     andthen (GPIO_output PIEZO_PIN HIGH)
       (andthen (time_sleep beep_on_time)
         (andthen (GPIO_output PIEZO_PIN LOW)
           (time_sleep beep_off_time)))"

text \<open>The body of the \<^verbatim>\<open>while\<close> loop of \<^verbatim>\<open>alarm\<close>: one group of beeps, then the pause.\<close>

definition beep_group :: "int \<Rightarrow> real \<Rightarrow> real \<Rightarrow> real \<Rightarrow> unit action" where
  "beep_group beeps_per_group beep_on_time beep_off_time group_pause =
     andthen (for_range beeps_per_group (one_beep beep_on_time beep_off_time))
       (time_sleep group_pause)"

definition alarm ::
  "real \<Rightarrow> int \<Rightarrow> real \<Rightarrow> real \<Rightarrow> real \<Rightarrow> world \<Rightarrow> ((exn + unit) \<times> world) option" where
  "alarm duration beeps_per_group beep_on_time beep_off_time group_pause w =
     (if \<not> RPI_AVAILABLE w then Some (print piezo_mock_notice w)
      else case init_gpio w of
          (Inl e, w1) \<Rightarrow> Some (Inl e, w1)
        | (Inr u, w1) \<Rightarrow>
            try_finally
              (while_elapsed (now w1) duration
                 (beep_group beeps_per_group beep_on_time beep_off_time group_pause))
              (GPIO_output PIEZO_PIN LOW) w1)"

definition piezo_alarm_cleanup :: "unit action" where
  "piezo_alarm_cleanup w =
     (if \<not> RPI_AVAILABLE w then (Inr (), w)
      else if initialized w
        then andthen (GPIO_output PIEZO_PIN LOW)
               (andthen (GPIO_cleanup PIEZO_PIN)
                 (\<lambda>v. (Inr (), v\<lparr>initialized := False\<rparr>))) w
        else (Inr (), w))"

section \<open>neopixel\_alarm.py\<close>

text \<open>
  Module load: \<^verbatim>\<open>NEOPIXEL_AVAILABLE = True; try: import board; import neopixel
  except Exception: NEOPIXEL_AVAILABLE = False; class MockPixels: ...; board = None;
  neopixel = None\<close>, then \<^verbatim>\<open>_pixels = None\<close>. The class \<^verbatim>\<open>MockPixels\<close> is defined and
  never instantiated.
\<close>

definition neopixel_alarm_module :: "bool \<Rightarrow> world \<Rightarrow> world" where
  "neopixel_alarm_module import_ok w = w\<lparr>NEOPIXEL_AVAILABLE := import_ok, pixels := None\<rparr>"

definition D18 :: nat where
  "D18 = 18"

definition PIXEL_PIN :: "world \<Rightarrow> nat option" where
  "PIXEL_PIN w = (if NEOPIXEL_AVAILABLE w then Some D18 else None)"

definition NUM_PIXELS :: nat where
  "NUM_PIXELS = 8"

definition BRIGHTNESS :: real where
  "BRIGHTNESS = 0.4"

definition black :: color where
  "black = (0, 0, 0)"

text \<open>
  \<^verbatim>\<open>neopixel.NeoPixel(...)\<close>: the constructor of the library, and an AttributeError on
  \<^verbatim>\<open>None\<close> when the import failed. \<^verbatim>\<open>fill\<close> stages one colour for every pixel (and
  pushes it when the strip writes automatically); \<^verbatim>\<open>show\<close> pushes the staged colours.
\<close>

definition neopixel_NeoPixel :: "nat option \<Rightarrow> nat \<Rightarrow> real \<Rightarrow> bool \<Rightarrow> strip action" where
  "neopixel_NeoPixel p n b aw w =
     (if NEOPIXEL_AVAILABLE w
      then andthen (extern (New (NeoPixel p n b aw)) (\<lambda>v. v)) (ret (NeoPixel p n b aw)) w
      else (Inl AttributeError, w))"

definition strip_fill :: "strip \<Rightarrow> color \<Rightarrow> unit action" where
  "strip_fill s c =
     extern (Fill c)
       (\<lambda>v. if strip_auto_write s
            then v\<lparr>buffer := replicate (strip_n s) c, leds := replicate (strip_n s) c\<rparr>
            else v\<lparr>buffer := replicate (strip_n s) c\<rparr>)"

definition strip_show :: "strip \<Rightarrow> unit action" where
  "strip_show s = extern Show (\<lambda>v. v\<lparr>leds := buffer v\<rparr>)"

definition pixels_mock_notice :: string where
  "pixels_mock_notice = ''[neopixel_alarm MOCK] neopixel not available on this platform.''"

definition init_pixels :: "strip option action" where
  "init_pixels w =
     (case pixels w of
        Some s \<Rightarrow> (Inr (Some s), w)
      | None \<Rightarrow>
          if \<not> NEOPIXEL_AVAILABLE w then andthen (print pixels_mock_notice) (ret None) w
          else bindE (neopixel_NeoPixel (PIXEL_PIN w) NUM_PIXELS BRIGHTNESS False)
                 (\<lambda>s. andthen (\<lambda>v. (Inr (), v\<lparr>pixels := Some s\<rparr>))
                        (andthen (strip_fill s black)
                          (andthen (strip_show s) (ret (Some s))))) w)"

definition set_all :: "color \<Rightarrow> unit action" where
  "set_all c =
     bindE init_pixels
       (\<lambda>p. case p of None \<Rightarrow> ret () | Some s \<Rightarrow> andthen (strip_fill s c) (strip_show s))"

definition flash_mock_notice :: string where
  "flash_mock_notice =
     ''[neopixel_alarm MOCK] alarm_flash() called '' @ [CHR 0xE2, CHR 0x80, CHR 0x93] @
     '' no neopixel hardware on this platform, doing nothing.''"

text \<open>One pass of the body of the \<^verbatim>\<open>for\<close> loop of \<^verbatim>\<open>alarm_flash\<close>.\<close>

definition one_flash :: "real \<Rightarrow> real \<Rightarrow> color \<Rightarrow> unit action" where
  "one_flash flash_on_time flash_off_time c =
     andthen (set_all c)
       (andthen (time_sleep flash_on_time)
         (andthen (set_all black)
           (time_sleep flash_off_time)))"

text \<open>The body of the \<^verbatim>\<open>while\<close> loop of \<^verbatim>\<open>alarm_flash\<close>.\<close>

definition flash_group :: "real \<Rightarrow> real \<Rightarrow> int \<Rightarrow> real \<Rightarrow> color \<Rightarrow> unit action" where
  "flash_group flash_on_time flash_off_time group_flashes group_pause c =
     andthen (for_range group_flashes (one_flash flash_on_time flash_off_time c))
       (time_sleep group_pause)"

definition alarm_flash ::
  "real \<Rightarrow> real \<Rightarrow> real \<Rightarrow> int \<Rightarrow> real \<Rightarrow> color \<Rightarrow> world \<Rightarrow> ((exn + unit) \<times> world) option" where
  "alarm_flash duration flash_on_time flash_off_time group_flashes group_pause c w =
     (if \<not> NEOPIXEL_AVAILABLE w then Some (print flash_mock_notice w)
      else case init_pixels w of
          (Inl e, w1) \<Rightarrow> Some (Inl e, w1)
        | (Inr p, w1) \<Rightarrow>
            try_finally
              (while_elapsed (now w) duration
                 (flash_group flash_on_time flash_off_time group_flashes group_pause c))
              (set_all black) w1)"

definition neopixel_alarm_cleanup :: "unit action" where
  "neopixel_alarm_cleanup =
     bindE init_pixels (\<lambda>p. case p of None \<Rightarrow> ret () | Some s \<Rightarrow> set_all black)"

section \<open>Observations on a world\<close>

definition printed :: "world \<Rightarrow> string list" where
  "printed w = concat (map (\<lambda>c. case c of Print s \<Rightarrow> [s] | _ \<Rightarrow> []) (trace w))"

text \<open>The calls of one beep, of one group of beeps, and the same for flashes.\<close>

definition beep_calls :: "real \<Rightarrow> real \<Rightarrow> call list" where
  "beep_calls ton toff = [Output PIEZO_PIN HIGH, Sleep ton, Output PIEZO_PIN LOW, Sleep toff]"

definition beep_group_calls :: "int \<Rightarrow> real \<Rightarrow> real \<Rightarrow> real \<Rightarrow> call list" where
  "beep_group_calls n ton toff tpause =
     concat (replicate (nat n) (beep_calls ton toff)) @ [Sleep tpause]"

definition flash_calls :: "real \<Rightarrow> real \<Rightarrow> color \<Rightarrow> call list" where
  "flash_calls ton toff c = [Fill c, Show, Sleep ton, Fill black, Show, Sleep toff]"

definition flash_group_calls :: "int \<Rightarrow> real \<Rightarrow> real \<Rightarrow> real \<Rightarrow> color \<Rightarrow> call list" where
  "flash_group_calls n ton toff tpause c =
     concat (replicate (nat n) (flash_calls ton toff c)) @ [Sleep tpause]"

definition is_output :: "call \<Rightarrow> bool" where
  "is_output c = (case c of Output p l \<Rightarrow> True | _ \<Rightarrow> False)"

definition is_fill :: "call \<Rightarrow> bool" where
  "is_fill c = (case c of Fill k \<Rightarrow> True | _ \<Rightarrow> False)"

text \<open>A concrete world at process start: nothing has run, no call raises.\<close>

definition boot :: world where
  "boot = \<lparr>now = 0, trace = [], calls = 0, faulty = (\<lambda>k. False), pin = LOW,
           buffer = [], leds = [], RPI_AVAILABLE = False, initialized = False,
           NEOPIXEL_AVAILABLE = False, pixels = None\<rparr>"

text \<open>
  Two worlds agree on the oracle and on the module globals; \<open>keptP\<close> asks it only of
  a world that already holds a strip.
\<close>

definition kept :: "world \<Rightarrow> world \<Rightarrow> bool" where
  "kept w w1 = (faulty w1 = faulty w \<and> RPI_AVAILABLE w1 = RPI_AVAILABLE w \<and>
     initialized w1 = initialized w \<and> NEOPIXEL_AVAILABLE w1 = NEOPIXEL_AVAILABLE w \<and>
     pixels w1 = pixels w)"

definition keptP :: "world \<Rightarrow> world \<Rightarrow> bool" where
  "keptP w w1 = (pixels w \<noteq> None \<longrightarrow> kept w w1)"

text \<open>
  An action returns in a world where no external call raises, and leaves such a world.
\<close>

definition returns :: "'a action \<Rightarrow> bool" where
  "returns a = (\<forall>w. faulty w = (\<lambda>i. False) \<longrightarrow>
     (\<exists>v w1. a w = (Inr v, w1) \<and> faulty w1 = (\<lambda>i. False)))"

text \<open>Every pixel of the strip displays black.\<close>

definition all_black :: "world \<Rightarrow> bool" where
  "all_black w =
     (case pixels w of None \<Rightarrow> False | Some s \<Rightarrow> leds w = replicate (strip_n s) black)"

text \<open>The calls of the hardware configuration of each driver.\<close>

definition gpio_setup_calls :: "call list" where
  "gpio_setup_calls = [Setmode BCM, Setup PIEZO_PIN OUT, Output PIEZO_PIN LOW]"

definition strip0 :: strip where
  "strip0 = NeoPixel (Some D18) NUM_PIXELS BRIGHTNESS False"

definition strip_setup_calls :: "call list" where
  "strip_setup_calls = [New strip0, Fill black, Show]"

text \<open>The world after each module was loaded on hardware, nothing else run.\<close>

definition piezo_on :: world where
  "piezo_on = piezo_alarm_module True boot"

definition pixel_on :: world where
  "pixel_on = neopixel_alarm_module True boot"

section \<open>Loops and sequencing\<close>

lemma unroll_while:
  "unroll n s d b w = Some y \<Longrightarrow> while_elapsed s d b w = Some y"
proof (induction n arbitrary: w)
  case 0
  then show ?case by (subst while_elapsed.simps) (simp split: if_splits)
next
  case (Suc n)
  show ?case
  proof (cases "now w - s < d")
    case False
    with Suc.prems show ?thesis by (subst while_elapsed.simps) simp
  next
    case True
    obtain r w1 where b: "b w = (r, w1)" by (cases "b w")
    show ?thesis
    proof (cases r)
      case (Inl e)
      with Suc.prems True b have "y = (Inl e, w1)" by simp
      with True b Inl show ?thesis by (subst while_elapsed.simps) simp
    next
      case (Inr u)
      with Suc.prems True b have "unroll n s d b w1 = Some y" by simp
      then have "while_elapsed s d b w1 = Some y" by (rule Suc.IH)
      with True b Inr show ?thesis by (subst while_elapsed.simps) simp
    qed
  qed
qed

lemma while_unroll:
  assumes "while_elapsed s d b w = Some y"
  shows "\<exists>n. unroll n s d b w = Some y"
  using assms
proof (induction rule: while_elapsed.raw_induct[rotated 1, consumes 1])
  case (1 wh s d b w y)
  show ?case
  proof (cases "now w - s < d")
    case False
    with 1(2) have "unroll 0 s d b w = Some y" by simp
    then show ?thesis by blast
  next
    case True
    obtain r w1 where b: "b w = (r, w1)" by (cases "b w")
    show ?thesis
    proof (cases r)
      case (Inl e)
      with 1(2) True b have "y = (Inl e, w1)" by simp
      with True b Inl have "unroll (Suc 0) s d b w = Some y" by simp
      then show ?thesis by blast
    next
      case (Inr u)
      with 1(2) True b have "wh s d b w1 = Some y" by simp
      then obtain n where "unroll n s d b w1 = Some y" using 1(1) by blast
      with True b Inr have "unroll (Suc n) s d b w = Some y" by simp
      then show ?thesis by blast
    qed
  qed
qed

lemma unroll_rule:
  assumes "unroll n s d b w = Some (r, w')" and "I w"
    and step: "\<And>v v1. I v \<Longrightarrow> now v - s < d \<Longrightarrow> b v = (Inr (), v1) \<Longrightarrow> I v1"
  shows "(r = Inr () \<and> I w' \<and> \<not> now w' - s < d) \<or>
         (\<exists>e v. r = Inl e \<and> I v \<and> now v - s < d \<and> b v = (Inl e, w'))"
  using assms(1,2)
proof (induction n arbitrary: w)
  case 0
  then show ?case by (auto split: if_splits)
next
  case (Suc n)
  show ?case
  proof (cases "now w - s < d")
    case False
    with Suc.prems show ?thesis by auto
  next
    case True
    obtain q w1 where b: "b w = (q, w1)" by (cases "b w")
    show ?thesis
    proof (cases q)
      case (Inl e)
      with Suc.prems True b show ?thesis by auto
    next
      case (Inr u)
      with Suc.prems True b have u: "unroll n s d b w1 = Some (r, w')" by simp
      from Inr b have "b w = (Inr (), w1)" by simp
      with Suc.prems(2) True have "I w1" by (rule step)
      with u show ?thesis by (rule Suc.IH)
    qed
  qed
qed

lemma while_rule:
  assumes "while_elapsed s d b w = Some (r, w')" and "I w"
    and step: "\<And>v v1. I v \<Longrightarrow> now v - s < d \<Longrightarrow> b v = (Inr (), v1) \<Longrightarrow> I v1"
  shows "(r = Inr () \<and> I w' \<and> \<not> now w' - s < d) \<or>
         (\<exists>e v. r = Inl e \<and> I v \<and> now v - s < d \<and> b v = (Inl e, w'))"
proof -
  from assms(1) obtain n where "unroll n s d b w = Some (r, w')"
    using while_unroll by blast
  then show ?thesis using assms(2) step by (rule unroll_rule)
qed

lemma unroll_terminates:
  assumes c: "0 < c"
    and adv: "\<And>v v1. b v = (Inr (), v1) \<Longrightarrow> now v + c \<le> now v1"
  shows "nat \<lceil>(d - (now w - s)) / c\<rceil> \<le> n \<Longrightarrow> \<exists>y. unroll n s d b w = Some y"
proof (induction n arbitrary: w)
  case 0
  then have "\<lceil>(d - (now w - s)) / c\<rceil> \<le> 0" by simp
  then have "(d - (now w - s)) / c \<le> 0" by (simp add: ceiling_le_zero)
  with c have "d - (now w - s) \<le> 0" by (simp add: divide_le_0_iff)
  then show ?case by simp
next
  case (Suc n)
  show ?case
  proof (cases "now w - s < d")
    case False
    then show ?thesis by simp
  next
    case True
    obtain q w1 where b: "b w = (q, w1)" by (cases "b w")
    show ?thesis
    proof (cases q)
      case (Inl e)
      with True b show ?thesis by simp
    next
      case (Inr u)
      with b have "now w + c \<le> now w1" using adv by simp
      then have "(d - (now w1 - s)) / c \<le> (d - (now w - s) - c) / c"
        using c by (intro divide_right_mono) auto
      also have "\<dots> = (d - (now w - s)) / c - 1"
        using c by (simp add: diff_divide_distrib)
      finally have "(d - (now w1 - s)) / c \<le> (d - (now w - s)) / c - 1" .
      then have "\<lceil>(d - (now w1 - s)) / c\<rceil> \<le> \<lceil>(d - (now w - s)) / c - 1\<rceil>"
        by (rule ceiling_mono)
      also have "\<dots> = \<lceil>(d - (now w - s)) / c\<rceil> - 1" by simp
      finally have "nat \<lceil>(d - (now w1 - s)) / c\<rceil> \<le> n" using Suc.prems by linarith
      then obtain y where "unroll n s d b w1 = Some y" using Suc.IH by blast
      with True b Inr show ?thesis by simp
    qed
  qed
qed

lemma kept_refl: "kept w w"
  by (simp add: kept_def)

lemma kept_trans: "kept w w1 \<Longrightarrow> kept w1 w2 \<Longrightarrow> kept w w2"
  by (simp add: kept_def)

lemma bindE_cases:
  assumes "bindE m f w = (r, w2)"
  obtains (raised) e where "m w = (Inl e, w2)" "r = Inl e"
    | (returned) v w1 where "m w = (Inr v, w1)" "f v w1 = (r, w2)"
  using assms by (auto simp: bindE_def split: prod.splits sum.splits)

lemma andthen_cases:
  assumes "andthen m k w = (r, w2)"
  obtains (raised) e where "m w = (Inl e, w2)" "r = Inl e"
    | (returned) v w1 where "m w = (Inr v, w1)" "k w1 = (r, w2)"
  using assms unfolding andthen_def by (rule bindE_cases)

lemma andthen_ok:
  "andthen m k w = (Inr v, w2) \<longleftrightarrow> (\<exists>u w1. m w = (Inr u, w1) \<and> k w1 = (Inr v, w2))"
  by (auto simp: andthen_def bindE_def split: prod.splits sum.splits)

lemma repeat_kept:
  assumes step: "\<And>w r w1. a w = (r, w1) \<Longrightarrow> kept w w1"
  shows "repeat k a w = (r, w1) \<Longrightarrow> kept w w1"
proof (induction k arbitrary: w)
  case 0
  then show ?case by (simp add: ret_def kept_refl)
next
  case (Suc k)
  from Suc.prems have "andthen a (repeat k a) w = (r, w1)" by simp
  then show ?case
  proof (cases rule: andthen_cases)
    case (raised e)
    then show ?thesis using step by blast
  next
    case (returned v w2)
    then show ?thesis using step Suc.IH kept_trans by blast
  qed
qed

lemma repeat_time:
  assumes step: "\<And>w r w1. a w = (r, w1) \<Longrightarrow> now w \<le> now w1 \<and> now w1 \<le> now w + c"
  shows "repeat k a w = (r, w1) \<Longrightarrow> now w \<le> now w1 \<and> now w1 \<le> now w + real k * c"
proof (induction k arbitrary: w)
  case 0
  then show ?case by (simp add: ret_def)
next
  case (Suc k)
  from Suc.prems have a: "andthen a (repeat k a) w = (r, w1)" by simp
  obtain q v where "a w = (q, v)" by (cases "a w")
  from step[OF this] have c: "0 \<le> c" by linarith
  from a show ?case
  proof (cases rule: andthen_cases)
    case (raised e)
    then have "now w \<le> now w1 \<and> now w1 \<le> now w + c" using step by blast
    moreover have "0 \<le> real k * c" using c by simp
    moreover have "real (Suc k) * c = c + real k * c" by (simp add: algebra_simps)
    ultimately show ?thesis by linarith
  next
    case (returned v w2)
    then have "now w \<le> now w2 \<and> now w2 \<le> now w + c" using step by blast
    moreover from returned have "now w2 \<le> now w1 \<and> now w1 \<le> now w2 + real k * c"
      using Suc.IH by blast
    moreover have "real (Suc k) * c = c + real k * c" by (simp add: algebra_simps)
    ultimately show ?thesis by linarith
  qed
qed

lemma repeat_ok:
  assumes step: "\<And>w w1. P w \<Longrightarrow> a w = (Inr (), w1) \<Longrightarrow>
      P w1 \<and> trace w1 = trace w @ g \<and> now w1 = now w + c"
  shows "P w \<Longrightarrow> repeat k a w = (Inr (), w1) \<Longrightarrow>
      P w1 \<and> trace w1 = trace w @ concat (replicate k g) \<and> now w1 = now w + real k * c"
proof (induction k arbitrary: w)
  case 0
  then show ?case by (simp add: ret_def)
next
  case (Suc k)
  from Suc.prems(2) obtain w2 where a: "a w = (Inr (), w2)" and r: "repeat k a w2 = (Inr (), w1)"
    by (auto simp: andthen_ok)
  from step[OF Suc.prems(1) a] have 1: "P w2" "trace w2 = trace w @ g" "now w2 = now w + c"
    by simp_all
  from Suc.IH[OF 1(1) r] 1 show ?case by (simp add: algebra_simps)
qed


section \<open>The primitives and the beep pattern\<close>

lemma time_sleep_kept: "time_sleep t w = (r, w1) \<Longrightarrow> kept w w1"
  by (auto simp: time_sleep_def extern_def kept_def Let_def split: if_splits)

lemma time_sleep_time:
  "time_sleep t w = (r, w1) \<Longrightarrow> now w \<le> now w1 \<and> (0 \<le> t \<longrightarrow> now w1 \<le> now w + t)"
  by (auto simp: time_sleep_def extern_def Let_def split: if_splits)

lemma time_sleep_ok:
  "time_sleep t w = (Inr (), w1) \<Longrightarrow>
     0 \<le> t \<and> w1 = w\<lparr>trace := trace w @ [Sleep t], calls := Suc (calls w), now := now w + t\<rparr>"
  by (auto simp: time_sleep_def extern_def Let_def split: if_splits)

lemma GPIO_output_kept: "GPIO_output p l w = (r, w1) \<Longrightarrow> kept w w1"
  by (auto simp: GPIO_output_def extern_def kept_def Let_def split: if_splits)

lemma GPIO_output_time: "GPIO_output p l w = (r, w1) \<Longrightarrow> now w1 = now w"
  by (auto simp: GPIO_output_def extern_def Let_def split: if_splits)

lemma GPIO_output_ok:
  "RPI_AVAILABLE w \<Longrightarrow> GPIO_output PIEZO_PIN l w = (Inr (), w1) \<Longrightarrow>
     w1 = w\<lparr>trace := trace w @ [Output PIEZO_PIN l], calls := Suc (calls w), pin := l\<rparr>"
  by (auto simp: GPIO_output_def extern_def Let_def split: if_splits)

lemma andthen_kept:
  assumes "andthen m k w = (r, w1)"
    and "\<And>w r w1. m w = (r, w1) \<Longrightarrow> kept w w1"
    and "\<And>w r w1. k w = (r, w1) \<Longrightarrow> kept w w1"
  shows "kept w w1"
  using assms(1)
proof (cases rule: andthen_cases)
  case (raised e)
  then show ?thesis using assms(2) by blast
next
  case (returned v w2)
  then show ?thesis using assms(2,3) kept_trans by blast
qed

lemma andthen_time:
  assumes "andthen m k w = (r, w1)"
    and m: "\<And>w r w1. m w = (r, w1) \<Longrightarrow> now w \<le> now w1 \<and> now w1 \<le> now w + c1"
    and k: "\<And>w r w1. k w = (r, w1) \<Longrightarrow> now w \<le> now w1 \<and> now w1 \<le> now w + c2"
  shows "now w \<le> now w1 \<and> now w1 \<le> now w + (c1 + c2)"
proof -
  obtain q v where "k w = (q, v)" by (cases "k w")
  from k[OF this] have c2: "0 \<le> c2" by linarith
  from assms(1) show ?thesis
  proof (cases rule: andthen_cases)
    case (raised e)
    then have "now w \<le> now w1 \<and> now w1 \<le> now w + c1" using m by blast
    with c2 show ?thesis by linarith
  next
    case (returned v w2)
    then have "now w \<le> now w2 \<and> now w2 \<le> now w + c1" using m by blast
    moreover from returned have "now w2 \<le> now w1 \<and> now w1 \<le> now w2 + c2" using k by blast
    ultimately show ?thesis by linarith
  qed
qed

lemma GPIO_output_time0:
  "GPIO_output p l w = (r, w1) \<Longrightarrow> now w \<le> now w1 \<and> now w1 \<le> now w + 0"
  by (simp add: GPIO_output_time)

lemma time_sleep_time_le:
  "0 \<le> t \<Longrightarrow> time_sleep t w = (r, w1) \<Longrightarrow> now w \<le> now w1 \<and> now w1 \<le> now w + t"
  using time_sleep_time by blast

lemma one_beep_kept: "one_beep ton toff w = (r, w1) \<Longrightarrow> kept w w1"
  unfolding one_beep_def
  apply (erule andthen_kept, erule GPIO_output_kept)
  apply (erule andthen_kept, erule time_sleep_kept)
  apply (erule andthen_kept, erule GPIO_output_kept)
  apply (erule time_sleep_kept)
  done

lemma one_beep_time:
  assumes "one_beep ton toff w = (r, w1)" "0 \<le> ton" "0 \<le> toff"
  shows "now w \<le> now w1 \<and> now w1 \<le> now w + (ton + toff)"
proof -
  have "now w \<le> now w1 \<and> now w1 \<le> now w + (0 + (ton + (0 + toff)))"
    using assms(1) unfolding one_beep_def
    apply (rule andthen_time)
     apply (erule GPIO_output_time0)
    apply (erule andthen_time)
     apply (erule time_sleep_time_le[OF assms(2)])
    apply (erule andthen_time)
     apply (erule GPIO_output_time0)
    apply (erule time_sleep_time_le[OF assms(3)])
    done
  then show ?thesis by simp
qed

lemma one_beep_ok:
  assumes "RPI_AVAILABLE w" "one_beep ton toff w = (Inr (), w1)"
  shows "RPI_AVAILABLE w1 \<and> trace w1 = trace w @ beep_calls ton toff \<and>
         now w1 = now w + (ton + toff)"
proof -
  from assms(2) obtain a b c where
    1: "GPIO_output PIEZO_PIN HIGH w = (Inr (), a)" and 2: "time_sleep ton a = (Inr (), b)" and
    3: "GPIO_output PIEZO_PIN LOW b = (Inr (), c)" and 4: "time_sleep toff c = (Inr (), w1)"
    by (auto simp: one_beep_def andthen_ok)
  from assms(1) GPIO_output_ok[OF assms(1) 1] time_sleep_ok[OF 2] have b: "RPI_AVAILABLE b"
    "trace b = trace w @ [Output PIEZO_PIN HIGH, Sleep ton]" "now b = now w + ton" by simp_all
  from GPIO_output_ok[OF b(1) 3] time_sleep_ok[OF 4] b show ?thesis
    by (simp add: beep_calls_def)
qed

lemma repeat_adv:
  assumes step: "\<And>w w1. a w = (Inr (), w1) \<Longrightarrow> now w1 = now w + c"
  shows "repeat k a w = (Inr (), w1) \<Longrightarrow> now w1 = now w + real k * c"
proof (induction k arbitrary: w)
  case 0
  then show ?case by (simp add: ret_def)
next
  case (Suc k)
  from Suc.prems obtain w2 where a: "a w = (Inr (), w2)" and r: "repeat k a w2 = (Inr (), w1)"
    by (auto simp: andthen_ok)
  from step[OF a] Suc.IH[OF r] show ?case by (simp add: algebra_simps)
qed

lemma one_beep_adv:
  assumes "one_beep ton toff w = (Inr (), w1)"
  shows "now w1 = now w + (ton + toff)"
proof -
  from assms obtain a b c where
    1: "GPIO_output PIEZO_PIN HIGH w = (Inr (), a)" and 2: "time_sleep ton a = (Inr (), b)" and
    3: "GPIO_output PIEZO_PIN LOW b = (Inr (), c)" and 4: "time_sleep toff c = (Inr (), w1)"
    by (auto simp: one_beep_def andthen_ok)
  from GPIO_output_time[OF 1] time_sleep_ok[OF 2] GPIO_output_time[OF 3] time_sleep_ok[OF 4]
  show ?thesis by simp
qed

lemma beep_group_kept: "beep_group n ton toff tp w = (r, w1) \<Longrightarrow> kept w w1"
  unfolding beep_group_def for_range_def
  apply (erule andthen_kept)
   apply (erule repeat_kept[rotated], erule one_beep_kept)
  apply (erule time_sleep_kept)
  done

lemma beep_group_time:
  assumes "beep_group n ton toff tp w = (r, w1)" "0 \<le> ton" "0 \<le> toff" "0 \<le> tp"
  shows "now w \<le> now w1 \<and> now w1 \<le> now w + (real (nat n) * (ton + toff) + tp)"
  using assms(1) unfolding beep_group_def for_range_def
  apply (rule andthen_time)
   apply (erule repeat_time[rotated])
   apply (erule one_beep_time[OF _ assms(2,3)])
  apply (erule time_sleep_time_le[OF assms(4)])
  done

lemma beep_group_adv:
  assumes "beep_group n ton toff tp w = (Inr (), w1)"
  shows "now w1 = now w + (real (nat n) * (ton + toff) + tp)"
proof -
  from assms obtain a where
    1: "repeat (nat n) (one_beep ton toff) w = (Inr (), a)" and 2: "time_sleep tp a = (Inr (), w1)"
    by (auto simp: beep_group_def for_range_def andthen_ok)
  from repeat_adv[where a = "one_beep ton toff" and c = "ton + toff", OF one_beep_adv 1]
    time_sleep_ok[OF 2]
  show ?thesis by simp
qed

lemma beep_group_ok:
  assumes "RPI_AVAILABLE w" "beep_group n ton toff tp w = (Inr (), w1)"
  shows "trace w1 = trace w @ beep_group_calls n ton toff tp"
proof -
  from assms(2) obtain a where
    1: "repeat (nat n) (one_beep ton toff) w = (Inr (), a)" and 2: "time_sleep tp a = (Inr (), w1)"
    by (auto simp: beep_group_def for_range_def andthen_ok)
  have "RPI_AVAILABLE a \<and> trace a = trace w @ concat (replicate (nat n) (beep_calls ton toff)) \<and>
        now a = now w + real (nat n) * (ton + toff)"
    using assms(1) 1 by (rule repeat_ok[where P = RPI_AVAILABLE, rotated]) (rule one_beep_ok)
  with time_sleep_ok[OF 2] show ?thesis by (simp add: beep_group_calls_def)
qed

lemma while_kept:
  assumes "while_elapsed s d b w = Some (r, w')"
    and "\<And>v q v1. b v = (q, v1) \<Longrightarrow> kept v v1"
  shows "kept w w'"
proof -
  have "(r = Inr () \<and> kept w w' \<and> \<not> now w' - s < d) \<or>
        (\<exists>e v. r = Inl e \<and> kept w v \<and> now v - s < d \<and> b v = (Inl e, w'))"
    using assms(1) kept_refl
  proof (rule while_rule)
    fix v v1 assume "kept w v" "b v = (Inr (), v1)"
    then show "kept w v1" using assms(2) kept_trans by blast
  qed
  then show ?thesis using assms(2) kept_trans by blast
qed

lemma init_gpio_kept:
  "init_gpio w = (r, w1) \<Longrightarrow>
     faulty w1 = faulty w \<and> RPI_AVAILABLE w1 = RPI_AVAILABLE w \<and> now w1 = now w \<and>
     NEOPIXEL_AVAILABLE w1 = NEOPIXEL_AVAILABLE w \<and> pixels w1 = pixels w"
  by (auto simp: init_gpio_def andthen_def bindE_def GPIO_setmode_def GPIO_setup_def
      GPIO_output_def extern_def Let_def split: if_splits)

lemma init_gpio_ok:
  "RPI_AVAILABLE w \<Longrightarrow> init_gpio w = (Inr (), w1) \<Longrightarrow>
     initialized w1 \<and>
     w1 = (if initialized w then w
           else w\<lparr>trace := trace w @ [Setmode BCM, Setup PIEZO_PIN OUT, Output PIEZO_PIN LOW],
                  calls := Suc (Suc (Suc (calls w))), pin := LOW, initialized := True\<rparr>)"
  by (auto simp: init_gpio_def andthen_def bindE_def GPIO_setmode_def GPIO_setup_def
      GPIO_output_def extern_def Let_def split: if_splits)

lemma alarm_cases:
  assumes "alarm d n ton toff tp w = Some (r, w')" "RPI_AVAILABLE w"
  obtains (init_raised) e where "init_gpio w = (Inl e, w')" "r = Inl e"
  | (ran) w1 r0 w2 q where "init_gpio w = (Inr (), w1)"
      "while_elapsed (now w1) d (beep_group n ton toff tp) w1 = Some (r0, w2)"
      "GPIO_output PIEZO_PIN LOW w2 = (q, w')"
      "r = (case q of Inl e \<Rightarrow> Inl e | Inr u \<Rightarrow> r0)"
  using assms
  by (auto simp: alarm_def try_finally_def split: prod.splits sum.splits option.splits)

lemma force_off_piezo:
  assumes "RPI_AVAILABLE w2" "GPIO_output PIEZO_PIN LOW w2 = (q, w')"
  shows "last (trace w') = Output PIEZO_PIN LOW \<and> (\<not> faulty w' (calls w' - 1) \<longrightarrow> pin w' = LOW)"
  using assms by (auto simp: GPIO_output_def extern_def Let_def split: if_splits)

lemma alarm_off_on_exit:
  assumes "RPI_AVAILABLE w" "fst (init_gpio w) = Inr ()" "alarm d n ton toff tp w = Some (r, w')"
  shows "last (trace w') = Output PIEZO_PIN LOW \<and> (\<not> faulty w' (calls w' - 1) \<longrightarrow> pin w' = LOW)"
  using assms(3,1)
proof (cases rule: alarm_cases)
  case (init_raised e)
  with assms(2) show ?thesis by simp
next
  case (ran w1 r0 w2 q)
  from ran(1) assms(1) have "RPI_AVAILABLE w1" using init_gpio_kept by blast
  moreover from ran(2) have "kept w1 w2" by (rule while_kept) (rule beep_group_kept)
  ultimately have "RPI_AVAILABLE w2" by (simp add: kept_def)
  then show ?thesis using ran(3) by (rule force_off_piezo)
qed

section \<open>The flash pattern\<close>

lemma keptP_refl: "reflp keptP"
  by (rule reflpI) (simp add: keptP_def kept_def)

lemma keptP_trans: "transp keptP"
  by (rule transpI) (auto simp: keptP_def kept_def)

lemma andthen_pres:
  assumes refl: "reflp R" and trans: "transp R"
    and "andthen m k w = (r, w1)"
    and m: "\<And>w r w1. m w = (r, w1) \<Longrightarrow> R w w1"
    and k: "\<And>w r w1. k w = (r, w1) \<Longrightarrow> R w w1"
  shows "R w w1"
  using assms(3)
proof (cases rule: andthen_cases)
  case (raised e)
  then show ?thesis using m by blast
next
  case (returned v w2)
  then show ?thesis using m k transpD[OF trans] by blast
qed

lemma repeat_pres:
  assumes refl: "reflp R" and trans: "transp R"
    and step: "\<And>w r w1. a w = (r, w1) \<Longrightarrow> R w w1"
  shows "repeat k a w = (r, w1) \<Longrightarrow> R w w1"
proof (induction k arbitrary: w)
  case 0
  then show ?case by (simp add: ret_def reflpD[OF refl])
next
  case (Suc k)
  from Suc.prems have "andthen a (repeat k a) w = (r, w1)" by simp
  then show ?case
  proof (cases rule: andthen_cases)
    case (raised e)
    then show ?thesis using step by blast
  next
    case (returned v w2)
    then show ?thesis using step Suc.IH transpD[OF trans] by blast
  qed
qed

lemma while_pres:
  assumes refl: "reflp R" and trans: "transp R"
    and "while_elapsed s d b w = Some (r, w')"
    and step: "\<And>v q v1. b v = (q, v1) \<Longrightarrow> R v v1"
  shows "R w w'"
proof -
  have "(r = Inr () \<and> R w w' \<and> \<not> now w' - s < d) \<or>
        (\<exists>e v. r = Inl e \<and> R w v \<and> now v - s < d \<and> b v = (Inl e, w'))"
    using assms(3) reflpD[OF refl]
  proof (rule while_rule)
    fix v v1 assume "R w v" "b v = (Inr (), v1)"
    then show "R w v1" using step transpD[OF trans] by blast
  qed
  then show ?thesis using step transpD[OF trans] by blast
qed

lemmas andthen_keptP = andthen_pres[where R = keptP, OF keptP_refl keptP_trans]
lemmas repeat_keptP = repeat_pres[where R = keptP, OF keptP_refl keptP_trans]
lemmas while_keptP = while_pres[where R = keptP, OF keptP_refl keptP_trans]

lemma time_sleep_keptP: "time_sleep t w = (r, w1) \<Longrightarrow> keptP w w1"
  by (simp add: keptP_def time_sleep_kept)

lemma set_all_keptP: "set_all c w = (r, w1) \<Longrightarrow> keptP w w1"
  by (auto simp: set_all_def init_pixels_def bindE_def andthen_def strip_fill_def strip_show_def
      extern_def Let_def keptP_def kept_def split: if_splits option.splits)

lemma init_pixels_time: "init_pixels w = (r, w1) \<Longrightarrow> now w1 = now w"
  by (auto simp: init_pixels_def bindE_def andthen_def strip_fill_def strip_show_def ret_def
      print_def neopixel_NeoPixel_def extern_def Let_def split: if_splits option.splits)

lemma set_all_time: "set_all c w = (r, w1) \<Longrightarrow> now w1 = now w"
  unfolding set_all_def
  by (erule bindE_cases)
     (auto dest!: init_pixels_time simp: ret_def andthen_def bindE_def strip_fill_def strip_show_def
        extern_def Let_def split: if_splits option.splits)

lemma set_all_time0: "set_all c w = (r, w1) \<Longrightarrow> now w \<le> now w1 \<and> now w1 \<le> now w + 0"
  by (simp add: set_all_time)

lemma set_all_ok:
  "pixels w = Some s \<Longrightarrow> set_all c w = (Inr (), w1) \<Longrightarrow>
     w1 = w\<lparr>trace := trace w @ [Fill c, Show], calls := Suc (Suc (calls w)),
            buffer := replicate (strip_n s) c, leds := replicate (strip_n s) c\<rparr>"
  by (auto simp: set_all_def init_pixels_def bindE_def andthen_def strip_fill_def strip_show_def
      extern_def Let_def split: if_splits)

lemma one_flash_keptP: "one_flash ton toff c w = (r, w1) \<Longrightarrow> keptP w w1"
  unfolding one_flash_def
  apply (erule andthen_keptP, erule set_all_keptP)
  apply (erule andthen_keptP, erule time_sleep_keptP)
  apply (erule andthen_keptP, erule set_all_keptP)
  apply (erule time_sleep_keptP)
  done

lemma one_flash_time:
  assumes "one_flash ton toff c w = (r, w1)" "0 \<le> ton" "0 \<le> toff"
  shows "now w \<le> now w1 \<and> now w1 \<le> now w + (ton + toff)"
proof -
  have "now w \<le> now w1 \<and> now w1 \<le> now w + (0 + (ton + (0 + toff)))"
    using assms(1) unfolding one_flash_def
    apply (rule andthen_time)
     apply (erule set_all_time0)
    apply (erule andthen_time)
     apply (erule time_sleep_time_le[OF assms(2)])
    apply (erule andthen_time)
     apply (erule set_all_time0)
    apply (erule time_sleep_time_le[OF assms(3)])
    done
  then show ?thesis by simp
qed

lemma one_flash_adv:
  assumes "one_flash ton toff c w = (Inr (), w1)"
  shows "now w1 = now w + (ton + toff)"
proof -
  from assms obtain a b d where
    1: "set_all c w = (Inr (), a)" and 2: "time_sleep ton a = (Inr (), b)" and
    3: "set_all black b = (Inr (), d)" and 4: "time_sleep toff d = (Inr (), w1)"
    by (auto simp: one_flash_def andthen_ok)
  from set_all_time[OF 1] time_sleep_ok[OF 2] set_all_time[OF 3] time_sleep_ok[OF 4]
  show ?thesis by simp
qed

lemma one_flash_ok:
  assumes "pixels w = Some s" "one_flash ton toff c w = (Inr (), w1)"
  shows "pixels w1 = Some s \<and> trace w1 = trace w @ flash_calls ton toff c \<and>
         now w1 = now w + (ton + toff)"
proof -
  from assms(2) obtain a b d where
    1: "set_all c w = (Inr (), a)" and 2: "time_sleep ton a = (Inr (), b)" and
    3: "set_all black b = (Inr (), d)" and 4: "time_sleep toff d = (Inr (), w1)"
    by (auto simp: one_flash_def andthen_ok)
  from assms(1) set_all_ok[OF assms(1) 1] time_sleep_ok[OF 2] have b: "pixels b = Some s"
    "trace b = trace w @ [Fill c, Show, Sleep ton]" "now b = now w + ton" by simp_all
  from set_all_ok[OF b(1) 3] time_sleep_ok[OF 4] b show ?thesis
    by (simp add: flash_calls_def)
qed

lemma flash_group_keptP: "flash_group ton toff n tp c w = (r, w1) \<Longrightarrow> keptP w w1"
  unfolding flash_group_def for_range_def
  apply (erule andthen_keptP)
   apply (erule repeat_keptP[rotated], erule one_flash_keptP)
  apply (erule time_sleep_keptP)
  done

lemma flash_group_time:
  assumes "flash_group ton toff n tp c w = (r, w1)" "0 \<le> ton" "0 \<le> toff" "0 \<le> tp"
  shows "now w \<le> now w1 \<and> now w1 \<le> now w + (real (nat n) * (ton + toff) + tp)"
  using assms(1) unfolding flash_group_def for_range_def
  apply (rule andthen_time)
   apply (erule repeat_time[rotated])
   apply (erule one_flash_time[OF _ assms(2,3)])
  apply (erule time_sleep_time_le[OF assms(4)])
  done

lemma flash_group_adv:
  assumes "flash_group ton toff n tp c w = (Inr (), w1)"
  shows "now w1 = now w + (real (nat n) * (ton + toff) + tp)"
proof -
  from assms obtain a where
    1: "repeat (nat n) (one_flash ton toff c) w = (Inr (), a)" and 2: "time_sleep tp a = (Inr (), w1)"
    by (auto simp: flash_group_def for_range_def andthen_ok)
  from repeat_adv[where a = "one_flash ton toff c" and c = "ton + toff", OF one_flash_adv 1]
    time_sleep_ok[OF 2]
  show ?thesis by simp
qed

lemma flash_group_ok:
  assumes "pixels w = Some s" "flash_group ton toff n tp c w = (Inr (), w1)"
  shows "trace w1 = trace w @ flash_group_calls n ton toff tp c"
proof -
  from assms(2) obtain a where
    1: "repeat (nat n) (one_flash ton toff c) w = (Inr (), a)" and 2: "time_sleep tp a = (Inr (), w1)"
    by (auto simp: flash_group_def for_range_def andthen_ok)
  have "pixels a = Some s \<and> trace a = trace w @ concat (replicate (nat n) (flash_calls ton toff c)) \<and>
        now a = now w + real (nat n) * (ton + toff)"
    using assms(1) 1 by (rule repeat_ok[where P = "\<lambda>v. pixels v = Some s", rotated]) (rule one_flash_ok)
  with time_sleep_ok[OF 2] show ?thesis by (simp add: flash_group_calls_def)
qed

lemma init_pixels_kept:
  "init_pixels w = (r, w1) \<Longrightarrow>
     faulty w1 = faulty w \<and> NEOPIXEL_AVAILABLE w1 = NEOPIXEL_AVAILABLE w \<and>
     RPI_AVAILABLE w1 = RPI_AVAILABLE w \<and> initialized w1 = initialized w"
  by (auto simp: init_pixels_def bindE_def andthen_def strip_fill_def strip_show_def ret_def
      print_def neopixel_NeoPixel_def extern_def Let_def split: if_splits option.splits)

lemma init_pixels_ok:
  "NEOPIXEL_AVAILABLE w \<Longrightarrow> init_pixels w = (Inr p, w1) \<Longrightarrow>
     p = pixels w1 \<and>
     (case pixels w of
        Some s \<Rightarrow> w1 = w
      | None \<Rightarrow> w1 = w\<lparr>trace := trace w @
                       [New (NeoPixel (Some D18) NUM_PIXELS BRIGHTNESS False), Fill black, Show],
                     calls := Suc (Suc (Suc (calls w))),
                     pixels := Some (NeoPixel (Some D18) NUM_PIXELS BRIGHTNESS False),
                     buffer := replicate NUM_PIXELS black, leds := replicate NUM_PIXELS black\<rparr>)"
  by (auto simp: init_pixels_def bindE_def andthen_def strip_fill_def strip_show_def ret_def
      PIXEL_PIN_def neopixel_NeoPixel_def extern_def Let_def split: if_splits option.splits)

lemma alarm_flash_cases:
  assumes "alarm_flash d ton toff n tp c w = Some (r, w')" "NEOPIXEL_AVAILABLE w"
  obtains (init_raised) e where "init_pixels w = (Inl e, w')" "r = Inl e"
  | (ran) p w1 r0 w2 q where "init_pixels w = (Inr p, w1)"
      "while_elapsed (now w) d (flash_group ton toff n tp c) w1 = Some (r0, w2)"
      "set_all black w2 = (q, w')"
      "r = (case q of Inl e \<Rightarrow> Inl e | Inr u \<Rightarrow> r0)"
  using assms
  by (auto simp: alarm_flash_def try_finally_def split: prod.splits sum.splits option.splits)

lemma force_off_pixel:
  assumes "pixels w2 = Some s" "set_all black w2 = (q, w')"
  shows "last (filter is_fill (trace w')) = Fill black \<and>
     (\<not> faulty w' (calls w' - 1) \<longrightarrow> (\<exists>tr. trace w' = tr @ [Fill black, Show]) \<and> all_black w')"
  using assms
  by (auto simp: set_all_def init_pixels_def bindE_def andthen_def strip_fill_def strip_show_def
      extern_def Let_def is_fill_def all_black_def split: if_splits)

lemma alarm_flash_off_on_exit:
  assumes "NEOPIXEL_AVAILABLE w" "\<not> isl (fst (init_pixels w))"
    "alarm_flash d ton toff n tp c w = Some (r, w')"
  shows "last (filter is_fill (trace w')) = Fill black \<and>
     (\<not> faulty w' (calls w' - 1) \<longrightarrow> (\<exists>tr. trace w' = tr @ [Fill black, Show]) \<and> all_black w')"
  using assms(3,1)
proof (cases rule: alarm_flash_cases)
  case (init_raised e)
  with assms(2) show ?thesis by simp
next
  case (ran p w1 r0 w2 q)
  from init_pixels_ok[OF assms(1) ran(1)] obtain s where s: "pixels w1 = Some s"
    by (auto split: option.splits)
  from ran(2) have "keptP w1 w2" by (rule while_keptP) (rule flash_group_keptP)
  with s have "pixels w2 = Some s" by (simp add: keptP_def kept_def)
  then show ?thesis using ran(3) by (rule force_off_pixel)
qed

section \<open>Evaluation on concrete worlds\<close>

lemmas eval_defs = ret_def bindE_def andthen_def extern_def time_sleep_def print_def for_range_def
  try_finally_def PIEZO_PIN_def piezo_alarm_module_def GPIO_setmode_def GPIO_setup_def GPIO_output_def
  GPIO_cleanup_def init_gpio_def one_beep_def beep_group_def alarm_def piezo_alarm_cleanup_def
  neopixel_alarm_module_def PIXEL_PIN_def NUM_PIXELS_def BRIGHTNESS_def black_def D18_def
  neopixel_NeoPixel_def strip_fill_def strip_show_def init_pixels_def set_all_def one_flash_def
  flash_group_def alarm_flash_def neopixel_alarm_cleanup_def boot_def piezo_on_def pixel_on_def
  gpio_setup_calls_def strip0_def strip_setup_calls_def all_black_def is_fill_def is_output_def
  printed_def Let_def

lemma repeat_numeral [simp]:
  "repeat (numeral k) body = andthen body (repeat (pred_numeral k) body)"
  by (simp add: numeral_eq_Suc)

section \<open>The claims\<close>

text \<open>
  C1 (off on exit). Hardware available and the lazy initialisation done, so that the
  pattern loop is reached: whatever the parameters and whatever the oracle, that is
  whether the loop ends by expiry of the duration or by an exception of a call inside
  the pattern, when \<open>alarm\<close> returns or propagates the failure the last call it made
  is the write of LOW to the piezo pin, and the pin is LOW unless that very write
  raised. For \<open>alarm_flash\<close> the last fill requested is the black one, and unless the
  last call raised the trace ends with the black fill and its push and every pixel
  displays black.
\<close>

theorem off_on_exit:
  "(RPI_AVAILABLE w \<longrightarrow> fst (init_gpio w) = Inr () \<longrightarrow>
      alarm d n ton toff tp w = Some (r, w') \<longrightarrow>
      last (trace w') = Output PIEZO_PIN LOW \<and>
      (\<not> faulty w' (calls w' - 1) \<longrightarrow> pin w' = LOW)) \<and>
   (NEOPIXEL_AVAILABLE v \<longrightarrow> \<not> isl (fst (init_pixels v)) \<longrightarrow>
      alarm_flash d ton toff n tp c v = Some (q, v') \<longrightarrow>
      last (filter is_fill (trace v')) = Fill black \<and>
      (\<not> faulty v' (calls v' - 1) \<longrightarrow>
         (\<exists>tr. trace v' = tr @ [Fill black, Show]) \<and> all_black v'))"
  using alarm_off_on_exit alarm_flash_off_on_exit by blast

theorem off_on_exit_witness:
  "RPI_AVAILABLE (piezo_on\<lparr>faulty := (\<lambda>k. k = 4)\<rparr>) \<and>
   fst (init_gpio (piezo_on\<lparr>faulty := (\<lambda>k. k = 4)\<rparr>)) = Inr () \<and>
   alarm 1 3 (15/100) (1/10) (1/2) (piezo_on\<lparr>faulty := (\<lambda>k. k = 4)\<rparr>) =
     Some (Inl (Raised 4),
       piezo_on\<lparr>faulty := (\<lambda>k. k = 4), initialized := True, calls := 6, pin := LOW,
         trace := [Setmode BCM, Setup 4 OUT, Output 4 LOW, Output 4 HIGH, Sleep (15/100),
                   Output 4 LOW]\<rparr>) \<and>
   NEOPIXEL_AVAILABLE (pixel_on\<lparr>faulty := (\<lambda>k. k = 5)\<rparr>) \<and>
   \<not> isl (fst (init_pixels (pixel_on\<lparr>faulty := (\<lambda>k. k = 5)\<rparr>))) \<and>
   alarm_flash 1 (15/100) (1/10) 3 (1/2) (255, 0, 0) (pixel_on\<lparr>faulty := (\<lambda>k. k = 5)\<rparr>) =
     Some (Inl (Raised 5),
       pixel_on\<lparr>faulty := (\<lambda>k. k = 5), pixels := Some strip0, calls := 8,
         buffer := replicate 8 black, leds := replicate 8 black,
         trace := [New strip0, Fill black, Show, Fill (255, 0, 0), Show, Sleep (15/100),
                   Fill black, Show]\<rparr>) \<and>
   all_black (pixel_on\<lparr>faulty := (\<lambda>k. k = 5), pixels := Some strip0, calls := 8,
         buffer := replicate 8 black, leds := replicate 8 black,
         trace := [New strip0, Fill black, Show, Fill (255, 0, 0), Show, Sleep (15/100),
                   Fill black, Show]\<rparr>)"
proof -
  have 1: "alarm 1 3 (15/100) (1/10) (1/2) (piezo_on\<lparr>faulty := (\<lambda>k. k = 4)\<rparr>) =
     Some (Inl (Raised 4),
       piezo_on\<lparr>faulty := (\<lambda>k. k = 4), initialized := True, calls := 6, pin := LOW,
         trace := [Setmode BCM, Setup 4 OUT, Output 4 LOW, Output 4 HIGH, Sleep (15/100),
                   Output 4 LOW]\<rparr>)"
    by (simp add: eval_defs while_elapsed.simps)
  have 2: "alarm_flash 1 (15/100) (1/10) 3 (1/2) (255, 0, 0) (pixel_on\<lparr>faulty := (\<lambda>k. k = 5)\<rparr>) =
     Some (Inl (Raised 5),
       pixel_on\<lparr>faulty := (\<lambda>k. k = 5), pixels := Some strip0, calls := 8,
         buffer := replicate 8 black, leds := replicate 8 black,
         trace := [New strip0, Fill black, Show, Fill (255, 0, 0), Show, Sleep (15/100),
                   Fill black, Show]\<rparr>)"
    by (simp add: eval_defs while_elapsed.simps)
  have 3: "RPI_AVAILABLE (piezo_on\<lparr>faulty := (\<lambda>k. k = 4)\<rparr>)"
    "fst (init_gpio (piezo_on\<lparr>faulty := (\<lambda>k. k = 4)\<rparr>)) = Inr ()"
    "NEOPIXEL_AVAILABLE (pixel_on\<lparr>faulty := (\<lambda>k. k = 5)\<rparr>)"
    "\<not> isl (fst (init_pixels (pixel_on\<lparr>faulty := (\<lambda>k. k = 5)\<rparr>)))"
    by (simp_all add: eval_defs)
  from off_on_exit[where w = "piezo_on\<lparr>faulty := (\<lambda>k. k = 4)\<rparr>"
      and v = "pixel_on\<lparr>faulty := (\<lambda>k. k = 5)\<rparr>" and d = 1 and n = 3 and ton = "15/100"
      and toff = "1/10" and tp = "1/2" and c = "(255, 0, 0)" and r = "Inl (Raised 4)"
      and q = "Inl (Raised 5)"
      and w' = "piezo_on\<lparr>faulty := (\<lambda>k. k = 4), initialized := True, calls := 6, pin := LOW,
         trace := [Setmode BCM, Setup 4 OUT, Output 4 LOW, Output 4 HIGH, Sleep (15/100),
                   Output 4 LOW]\<rparr>"
      and v' = "pixel_on\<lparr>faulty := (\<lambda>k. k = 5), pixels := Some strip0, calls := 8,
         buffer := replicate 8 black, leds := replicate 8 black,
         trace := [New strip0, Fill black, Show, Fill (255, 0, 0), Show, Sleep (15/100),
                   Fill black, Show]\<rparr>"] 1 2 3
  show ?thesis by simp
qed

text \<open>
  C2 (mock mode is a no-op). With the availability flag false, \<open>alarm\<close> and
  \<open>alarm_flash\<close> return at once for every duration and every other parameter: the
  world after the call is the world before it with one printed line, the mock notice,
  appended to the trace. The clock has not moved, no external call was made, no loop
  iteration ran.
\<close>

theorem mock_mode_no_op:
  "(\<not> RPI_AVAILABLE w \<longrightarrow>
      alarm d n ton toff tp w = Some (Inr (), w\<lparr>trace := trace w @ [Print piezo_mock_notice]\<rparr>)) \<and>
   (\<not> NEOPIXEL_AVAILABLE w \<longrightarrow>
      alarm_flash d ton toff n tp c w =
        Some (Inr (), w\<lparr>trace := trace w @ [Print flash_mock_notice]\<rparr>))"
  by (simp add: alarm_def alarm_flash_def print_def)

theorem mock_mode_no_op_witness:
  "\<not> RPI_AVAILABLE boot \<and> \<not> NEOPIXEL_AVAILABLE boot \<and>
   alarm 5 3 (15/100) (1/10) (1/2) boot = Some (Inr (), boot\<lparr>trace := [Print piezo_mock_notice]\<rparr>) \<and>
   alarm_flash 5 (15/100) (1/10) 3 (1/2) (255, 0, 0) boot =
     Some (Inr (), boot\<lparr>trace := [Print flash_mock_notice]\<rparr>)"
  using mock_mode_no_op[where w = boot and d = 5 and n = 3 and ton = "15/100" and toff = "1/10"
      and tp = "1/2" and c = "(255, 0, 0)"]
  by (simp add: boot_def)

lemma repeat_fixed: "a w = (Inr (), w) \<Longrightarrow> repeat k a w = (Inr (), w)"
  by (induction k) (simp_all add: ret_def andthen_def bindE_def)

lemma piezo_alarm_cleanup_ok:
  "RPI_AVAILABLE w \<Longrightarrow> initialized w \<Longrightarrow> piezo_alarm_cleanup w = (Inr (), w1) \<Longrightarrow>
     w1 = w\<lparr>trace := trace w @ [Output PIEZO_PIN LOW, Cleanup PIEZO_PIN],
            calls := Suc (Suc (calls w)), pin := LOW, initialized := False\<rparr>"
  by (auto simp: piezo_alarm_cleanup_def andthen_def bindE_def GPIO_output_def GPIO_cleanup_def
      extern_def Let_def split: if_splits)

lemma piezo_alarm_cleanup_returns:
  "\<not> faulty w (calls w) \<Longrightarrow> \<not> faulty w (Suc (calls w)) \<Longrightarrow> fst (piezo_alarm_cleanup w) = Inr ()"
  by (simp add: piezo_alarm_cleanup_def andthen_def bindE_def GPIO_output_def GPIO_cleanup_def
      extern_def Let_def)

text \<open>
  C8 (piezo cleanup releases and re-arms). Hardware available and the driver
  initialised: a \<open>cleanup\<close> that returns has written LOW to the pin, released the pin
  through \<open>GPIO.cleanup\<close>, and reset the initialised flag; the world differs in nothing
  else. A following \<open>_init_gpio\<close> that returns has run the whole configuration again
  (set mode, set up the pin as output, write LOW) and set the flag.
\<close>

theorem piezo_cleanup_rearms:
  "RPI_AVAILABLE w \<longrightarrow> initialized w \<longrightarrow> piezo_alarm_cleanup w = (Inr (), w1) \<longrightarrow>
     w1 = w\<lparr>trace := trace w @ [Output PIEZO_PIN LOW, Cleanup PIEZO_PIN],
            calls := Suc (Suc (calls w)), pin := LOW, initialized := False\<rparr> \<and>
     (init_gpio w1 = (Inr (), w2) \<longrightarrow>
        trace w2 = trace w1 @ gpio_setup_calls \<and> initialized w2)"
proof (intro impI conjI)
  assume a: "RPI_AVAILABLE w" "initialized w" "piezo_alarm_cleanup w = (Inr (), w1)"
  from piezo_alarm_cleanup_ok[OF a] show 1: "w1 = w\<lparr>trace := trace w @ [Output PIEZO_PIN LOW, Cleanup PIEZO_PIN],
            calls := Suc (Suc (calls w)), pin := LOW, initialized := False\<rparr>" .
  assume b: "init_gpio w1 = (Inr (), w2)"
  from 1 a(1) have "RPI_AVAILABLE w1" "\<not> initialized w1" by simp_all
  with init_gpio_ok[OF this(1) b] show "trace w2 = trace w1 @ gpio_setup_calls" "initialized w2"
    by (simp_all add: gpio_setup_calls_def)
qed

theorem piezo_cleanup_rearms_witness:
  "RPI_AVAILABLE (piezo_on\<lparr>initialized := True\<rparr>) \<and> initialized (piezo_on\<lparr>initialized := True\<rparr>) \<and>
   piezo_alarm_cleanup (piezo_on\<lparr>initialized := True\<rparr>) =
     (Inr (), piezo_on\<lparr>trace := [Output 4 LOW, Cleanup 4], calls := 2\<rparr>) \<and>
   init_gpio (piezo_on\<lparr>trace := [Output 4 LOW, Cleanup 4], calls := 2\<rparr>) =
     (Inr (), piezo_on\<lparr>trace := [Output 4 LOW, Cleanup 4] @ gpio_setup_calls,
                calls := 5, initialized := True\<rparr>) \<and>
   initialized (piezo_on\<lparr>trace := [Output 4 LOW, Cleanup 4] @ gpio_setup_calls,
                calls := 5, initialized := True\<rparr>)"
proof -
  have 1: "RPI_AVAILABLE (piezo_on\<lparr>initialized := True\<rparr>)"
    "initialized (piezo_on\<lparr>initialized := True\<rparr>)"
    "piezo_alarm_cleanup (piezo_on\<lparr>initialized := True\<rparr>) =
     (Inr (), piezo_on\<lparr>trace := [Output 4 LOW, Cleanup 4], calls := 2\<rparr>)"
    "init_gpio (piezo_on\<lparr>trace := [Output 4 LOW, Cleanup 4], calls := 2\<rparr>) =
     (Inr (), piezo_on\<lparr>trace := [Output 4 LOW, Cleanup 4] @ gpio_setup_calls,
                calls := 5, initialized := True\<rparr>)"
    by (simp_all add: eval_defs)
  from piezo_cleanup_rearms[where w = "piezo_on\<lparr>initialized := True\<rparr>"
      and ?w1.0 = "piezo_on\<lparr>trace := [Output 4 LOW, Cleanup 4], calls := 2\<rparr>"
      and ?w2.0 = "piezo_on\<lparr>trace := [Output 4 LOW, Cleanup 4] @ gpio_setup_calls,
                calls := 5, initialized := True\<rparr>"] 1
  show ?thesis by blast
qed

text \<open>
  C4 (idempotent lazy initialisation). Piezo: on hardware and not yet initialised, a
  first \<open>_init_gpio\<close> that returns has made exactly the three configuration calls, and
  any number \<open>k\<close> of further calls in sequence return with the world unchanged; in
  mock mode any number of calls leave the world unchanged. Pixel: on hardware with no
  strip yet, a first \<open>_init_pixels\<close> that returns has constructed the strip, filled
  black and shown, and yields the handle; every later call returns the same cached
  handle with the world unchanged; in mock mode it makes no external call and
  yields \<open>None\<close>.
\<close>

theorem init_idempotent:
  "(RPI_AVAILABLE w \<longrightarrow> \<not> initialized w \<longrightarrow> init_gpio w = (Inr (), w1) \<longrightarrow>
      trace w1 = trace w @ gpio_setup_calls \<and> repeat k init_gpio w1 = (Inr (), w1)) \<and>
   (\<not> RPI_AVAILABLE w \<longrightarrow> repeat k init_gpio w = (Inr (), w)) \<and>
   (NEOPIXEL_AVAILABLE v \<longrightarrow> pixels v = None \<longrightarrow> init_pixels v = (Inr p, v1) \<longrightarrow>
      p = Some strip0 \<and> trace v1 = trace v @ strip_setup_calls \<and>
      init_pixels v1 = (Inr p, v1) \<and>
      repeat k (andthen init_pixels (ret ())) v1 = (Inr (), v1)) \<and>
   (\<not> NEOPIXEL_AVAILABLE v \<longrightarrow> pixels v = None \<longrightarrow>
      init_pixels v = (Inr None, v\<lparr>trace := trace v @ [Print pixels_mock_notice]\<rparr>))"
proof (intro conjI impI)
  assume a: "RPI_AVAILABLE w" "\<not> initialized w" "init_gpio w = (Inr (), w1)"
  from init_gpio_ok[OF a(1,3)] a(2) show "trace w1 = trace w @ gpio_setup_calls"
    by (simp add: gpio_setup_calls_def)
  from init_gpio_ok[OF a(1,3)] have "initialized w1" by simp
  then have "init_gpio w1 = (Inr (), w1)" by (simp add: init_gpio_def)
  then show "repeat k init_gpio w1 = (Inr (), w1)" by (rule repeat_fixed)
next
  assume "\<not> RPI_AVAILABLE w"
  then have "init_gpio w = (Inr (), w)" by (simp add: init_gpio_def)
  then show "repeat k init_gpio w = (Inr (), w)" by (rule repeat_fixed)
next
  assume a: "NEOPIXEL_AVAILABLE v" "pixels v = None" "init_pixels v = (Inr p, v1)"
  from init_pixels_ok[OF a(1,3)] a(2) have 1: "p = pixels v1" "pixels v1 = Some strip0"
    "trace v1 = trace v @ strip_setup_calls"
    by (simp_all add: strip0_def strip_setup_calls_def)
  from 1 show "p = Some strip0" by simp
  from 1 show "trace v1 = trace v @ strip_setup_calls" by simp
  from 1 show 2: "init_pixels v1 = (Inr p, v1)" by (simp add: init_pixels_def)
  then have "andthen init_pixels (ret ()) v1 = (Inr (), v1)"
    by (simp add: andthen_def bindE_def ret_def)
  then show "repeat k (andthen init_pixels (ret ())) v1 = (Inr (), v1)" by (rule repeat_fixed)
next
  assume "\<not> NEOPIXEL_AVAILABLE v" "pixels v = None"
  then show "init_pixels v = (Inr None, v\<lparr>trace := trace v @ [Print pixels_mock_notice]\<rparr>)"
    by (simp add: init_pixels_def andthen_def bindE_def print_def ret_def)
qed

theorem init_idempotent_witness:
  "RPI_AVAILABLE piezo_on \<and> \<not> initialized piezo_on \<and>
   init_gpio piezo_on = (Inr (), piezo_on\<lparr>trace := gpio_setup_calls, calls := 3, initialized := True\<rparr>) \<and>
   repeat 2 init_gpio (piezo_on\<lparr>trace := gpio_setup_calls, calls := 3, initialized := True\<rparr>) =
     (Inr (), piezo_on\<lparr>trace := gpio_setup_calls, calls := 3, initialized := True\<rparr>) \<and>
   \<not> RPI_AVAILABLE boot \<and> repeat 2 init_gpio boot = (Inr (), boot) \<and>
   NEOPIXEL_AVAILABLE pixel_on \<and> pixels pixel_on = None \<and>
   init_pixels pixel_on =
     (Inr (Some strip0), pixel_on\<lparr>trace := strip_setup_calls, calls := 3, pixels := Some strip0,
        buffer := replicate 8 black, leds := replicate 8 black\<rparr>) \<and>
   repeat 2 (andthen init_pixels (ret ()))
     (pixel_on\<lparr>trace := strip_setup_calls, calls := 3, pixels := Some strip0,
        buffer := replicate 8 black, leds := replicate 8 black\<rparr>) =
     (Inr (), pixel_on\<lparr>trace := strip_setup_calls, calls := 3, pixels := Some strip0,
        buffer := replicate 8 black, leds := replicate 8 black\<rparr>) \<and>
   \<not> NEOPIXEL_AVAILABLE boot \<and> pixels boot = None \<and>
   init_pixels boot = (Inr None, boot\<lparr>trace := trace boot @ [Print pixels_mock_notice]\<rparr>)"
proof -
  have 1: "init_gpio piezo_on = (Inr (), piezo_on\<lparr>trace := gpio_setup_calls, calls := 3, initialized := True\<rparr>)"
    "init_pixels pixel_on =
     (Inr (Some strip0), pixel_on\<lparr>trace := strip_setup_calls, calls := 3, pixels := Some strip0,
        buffer := replicate 8 black, leds := replicate 8 black\<rparr>)"
    "RPI_AVAILABLE piezo_on" "\<not> initialized piezo_on" "NEOPIXEL_AVAILABLE pixel_on"
    "pixels pixel_on = None"
    by (simp_all add: eval_defs)
  have 2: "\<not> RPI_AVAILABLE boot" "\<not> NEOPIXEL_AVAILABLE boot" "pixels boot = None"
    by (simp_all add: boot_def)
  from init_idempotent[where w = piezo_on and v = pixel_on and k = 2 and p = "Some strip0"
      and ?w1.0 = "piezo_on\<lparr>trace := gpio_setup_calls, calls := 3, initialized := True\<rparr>"
      and ?v1.0 = "pixel_on\<lparr>trace := strip_setup_calls, calls := 3, pixels := Some strip0,
        buffer := replicate 8 black, leds := replicate 8 black\<rparr>"]
    init_idempotent[where w = boot and v = boot and k = 2 and p = None and ?w1.0 = boot
      and ?v1.0 = boot] 1 2
  show ?thesis by blast
qed

lemma while_elapsed_expired:
  "\<not> now w - s < d \<Longrightarrow> while_elapsed s d b w = Some (Inr (), w)"
  by (subst while_elapsed.simps) simp

lemma alarm_expired:
  assumes "RPI_AVAILABLE w" "d \<le> 0" "alarm d n ton toff tp w = Some (Inr (), w')"
  shows "trace w' = trace w @ (if initialized w then [] else gpio_setup_calls) @ [Output PIEZO_PIN LOW]
         \<and> now w' = now w"
  using assms(3,1)
proof (cases rule: alarm_cases)
  case (init_raised e)
  then show ?thesis by simp
next
  case (ran w1 r0 w2 q)
  from assms(2) have "while_elapsed (now w1) d (beep_group n ton toff tp) w1 = Some (Inr (), w1)"
    by (intro while_elapsed_expired) simp
  with ran(2) have w2: "w2 = w1" by simp
  from ran(4) have "q = Inr ()" by (cases q) auto
  with ran(3) w2 have q: "GPIO_output PIEZO_PIN LOW w1 = (Inr (), w')" by simp
  have w1: "RPI_AVAILABLE w1 \<and>
    trace w1 = trace w @ (if initialized w then [] else gpio_setup_calls) \<and> now w1 = now w"
  proof (cases "initialized w")
    case True
    with init_gpio_ok[OF assms(1) ran(1)] assms(1) show ?thesis by simp
  next
    case False
    with init_gpio_ok[OF assms(1) ran(1)] assms(1) show ?thesis
      by (simp add: gpio_setup_calls_def)
  qed
  then have "RPI_AVAILABLE w1" by simp
  from GPIO_output_ok[OF this q] have "trace w' = trace w1 @ [Output PIEZO_PIN LOW]"
    "now w' = now w1" by simp_all
  with w1 show ?thesis by simp
qed

lemma alarm_flash_expired:
  assumes "NEOPIXEL_AVAILABLE w" "d \<le> 0" "alarm_flash d ton toff n tp c w = Some (Inr (), w')"
  shows "trace w' = trace w @ (case pixels w of None \<Rightarrow> strip_setup_calls | Some s \<Rightarrow> []) @
           [Fill black, Show] \<and> now w' = now w"
  using assms(3,1)
proof (cases rule: alarm_flash_cases)
  case (init_raised e)
  then show ?thesis by simp
next
  case (ran p w1 r0 w2 q)
  from init_pixels_time[OF ran(1)] have t: "now w1 = now w" .
  with assms(2) have "while_elapsed (now w) d (flash_group ton toff n tp c) w1 = Some (Inr (), w1)"
    by (intro while_elapsed_expired) simp
  with ran(2) have w2: "w2 = w1" by simp
  from ran(4) have "q = Inr ()" by (cases q) auto
  with ran(3) w2 have q: "set_all black w1 = (Inr (), w')" by simp
  have "\<exists>s. pixels w1 = Some s \<and>
      trace w1 = trace w @ (case pixels w of None \<Rightarrow> strip_setup_calls | Some s \<Rightarrow> [])"
  proof (cases "pixels w")
    case None
    with init_pixels_ok[OF assms(1) ran(1)] show ?thesis
      by (simp add: strip_setup_calls_def strip0_def)
  next
    case (Some s)
    with init_pixels_ok[OF assms(1) ran(1)] show ?thesis by simp
  qed
  then obtain s where w1: "pixels w1 = Some s"
    "trace w1 = trace w @ (case pixels w of None \<Rightarrow> strip_setup_calls | Some s \<Rightarrow> [])"
    by blast
  from set_all_ok[OF w1(1) q] have "trace w' = trace w1 @ [Fill black, Show]" "now w' = now w1"
    by simp_all
  with w1 t show ?thesis by simp
qed

lemma try_finally_returns: "body w \<noteq> None \<Longrightarrow> try_finally body fin w \<noteq> None"
  by (cases "body w") (auto simp: try_finally_def split: prod.splits sum.splits)

lemma alarm_expired_returns:
  assumes "d \<le> 0"
  shows "alarm d n ton toff tp w \<noteq> None"
proof (cases "RPI_AVAILABLE w")
  case False
  then show ?thesis by (simp add: alarm_def)
next
  case True
  obtain r1 w1 where i: "init_gpio w = (r1, w1)" by (cases "init_gpio w")
  show ?thesis
  proof (cases r1)
    case (Inl e)
    with True i show ?thesis by (simp add: alarm_def)
  next
    case (Inr u)
    from assms have "while_elapsed (now w1) d (beep_group n ton toff tp) w1 \<noteq> None"
      by (simp add: while_elapsed_expired)
    then have "try_finally (while_elapsed (now w1) d (beep_group n ton toff tp))
        (GPIO_output PIEZO_PIN LOW) w1 \<noteq> None"
      by (rule try_finally_returns)
    with True i Inr show ?thesis by (simp add: alarm_def)
  qed
qed

lemma alarm_flash_expired_returns:
  assumes "d \<le> 0"
  shows "alarm_flash d ton toff n tp c w \<noteq> None"
proof (cases "NEOPIXEL_AVAILABLE w")
  case False
  then show ?thesis by (simp add: alarm_flash_def)
next
  case True
  obtain r1 w1 where i: "init_pixels w = (r1, w1)" by (cases "init_pixels w")
  show ?thesis
  proof (cases r1)
    case (Inl e)
    with True i show ?thesis by (simp add: alarm_flash_def)
  next
    case (Inr u)
    from assms init_pixels_time[OF i]
    have "while_elapsed (now w) d (flash_group ton toff n tp c) w1 \<noteq> None"
      by (simp add: while_elapsed_expired)
    then have "try_finally (while_elapsed (now w) d (flash_group ton toff n tp c))
        (set_all black) w1 \<noteq> None"
      by (rule try_finally_returns)
    with True i Inr show ?thesis by (simp add: alarm_flash_def)
  qed
qed

lemma returnsD:
  "returns a \<Longrightarrow> faulty w = (\<lambda>i. False) \<Longrightarrow>
     \<exists>v w1. a w = (Inr v, w1) \<and> faulty w1 = (\<lambda>i. False)"
  by (simp add: returns_def)

lemma returns_andthen: "returns a \<Longrightarrow> returns b \<Longrightarrow> returns (andthen a b)"
  unfolding returns_def andthen_def bindE_def by (auto split: prod.splits sum.splits)

lemma returns_repeat: "returns a \<Longrightarrow> returns (repeat k a)"
proof (induction k)
  case 0
  show ?case by (simp add: returns_def ret_def)
next
  case (Suc k)
  then show ?case by (simp add: returns_andthen)
qed

lemma returns_time_sleep: "0 \<le> t \<Longrightarrow> returns (time_sleep t)"
  by (simp add: returns_def time_sleep_def extern_def Let_def)

lemma returns_GPIO_output: "returns (GPIO_output p l)"
  by (simp add: returns_def GPIO_output_def extern_def Let_def)

lemma returns_init_gpio: "returns init_gpio"
  by (simp add: returns_def init_gpio_def andthen_def bindE_def GPIO_setmode_def GPIO_setup_def
      GPIO_output_def extern_def Let_def)

lemma returns_init_pixels: "returns init_pixels"
  by (auto simp: returns_def init_pixels_def andthen_def bindE_def print_def ret_def
      neopixel_NeoPixel_def strip_fill_def strip_show_def extern_def Let_def split: option.splits)

lemma returns_set_all: "returns (set_all c)"
  by (auto simp: returns_def set_all_def init_pixels_def andthen_def bindE_def print_def ret_def
      neopixel_NeoPixel_def strip_fill_def strip_show_def extern_def Let_def split: option.splits)

lemma returns_beep_group:
  "0 \<le> ton \<Longrightarrow> 0 \<le> toff \<Longrightarrow> 0 \<le> tp \<Longrightarrow> returns (beep_group n ton toff tp)"
  unfolding beep_group_def for_range_def one_beep_def
  by (intro returns_andthen returns_repeat returns_GPIO_output returns_time_sleep)

lemma returns_flash_group:
  "0 \<le> ton \<Longrightarrow> 0 \<le> toff \<Longrightarrow> 0 \<le> tp \<Longrightarrow> returns (flash_group ton toff n tp c)"
  unfolding flash_group_def for_range_def one_flash_def
  by (intro returns_andthen returns_repeat returns_set_all returns_time_sleep)

lemma while_returns:
  assumes b: "returns b" and run: "while_elapsed s d b w = Some (r, w')"
    and w: "faulty w = (\<lambda>i. False)"
  shows "r = Inr () \<and> faulty w' = (\<lambda>i. False)"
proof -
  have "(r = Inr () \<and> faulty w' = (\<lambda>i. False) \<and> \<not> now w' - s < d) \<or>
        (\<exists>e v. r = Inl e \<and> faulty v = (\<lambda>i. False) \<and> now v - s < d \<and> b v = (Inl e, w'))"
    using run w
  proof (rule while_rule)
    fix v v1 assume "faulty v = (\<lambda>i. False)" "b v = (Inr (), v1)"
    with returnsD[OF b, of v] show "faulty v1 = (\<lambda>i. False)" by auto
  qed
  then show ?thesis
  proof
    assume "r = Inr () \<and> faulty w' = (\<lambda>i. False) \<and> \<not> now w' - s < d"
    then show ?thesis by simp
  next
    assume "\<exists>e v. r = Inl e \<and> faulty v = (\<lambda>i. False) \<and> now v - s < d \<and> b v = (Inl e, w')"
    then obtain e v where "faulty v = (\<lambda>i. False)" "b v = (Inl e, w')" by blast
    with returnsD[OF b, of v] have False by auto
    then show ?thesis ..
  qed
qed

lemma alarm_normal:
  assumes "RPI_AVAILABLE w" "faulty w = (\<lambda>i. False)"
    and loop: "\<And>w1 r0 w2. faulty w1 = (\<lambda>i. False) \<Longrightarrow>
      while_elapsed (now w1) d (beep_group n ton toff tp) w1 = Some (r0, w2) \<Longrightarrow>
      r0 = Inr () \<and> faulty w2 = (\<lambda>i. False)"
    and t: "alarm d n ton toff tp w \<noteq> None"
  shows "\<exists>w'. alarm d n ton toff tp w = Some (Inr (), w')"
proof -
  from t obtain r w' where a: "alarm d n ton toff tp w = Some (r, w')" by auto
  from a assms(1) have "r = Inr ()"
  proof (cases rule: alarm_cases)
    case (init_raised e)
    with returnsD[OF returns_init_gpio assms(2)] have False by auto
    then show ?thesis ..
  next
    case (ran w1 r0 w2 q)
    from ran(1) assms(2) have "faulty w1 = (\<lambda>i. False)" using init_gpio_kept by metis
    from loop[OF this ran(2)] have r0: "r0 = Inr ()" "faulty w2 = (\<lambda>i. False)"
      by simp_all
    from returnsD[OF returns_GPIO_output r0(2), of PIEZO_PIN LOW] ran(3) have "q = Inr ()"
      by auto
    with ran(4) r0(1) show ?thesis by simp
  qed
  with a show ?thesis by blast
qed

lemma alarm_flash_normal:
  assumes "NEOPIXEL_AVAILABLE w" "faulty w = (\<lambda>i. False)"
    and loop: "\<And>w1 r0 w2. faulty w1 = (\<lambda>i. False) \<Longrightarrow> now w1 = now w \<Longrightarrow>
      while_elapsed (now w) d (flash_group ton toff n tp c) w1 = Some (r0, w2) \<Longrightarrow>
      r0 = Inr () \<and> faulty w2 = (\<lambda>i. False)"
    and t: "alarm_flash d ton toff n tp c w \<noteq> None"
  shows "\<exists>w'. alarm_flash d ton toff n tp c w = Some (Inr (), w')"
proof -
  from t obtain r w' where a: "alarm_flash d ton toff n tp c w = Some (r, w')" by auto
  from a assms(1) have "r = Inr ()"
  proof (cases rule: alarm_flash_cases)
    case (init_raised e)
    with returnsD[OF returns_init_pixels assms(2)] have False by auto
    then show ?thesis ..
  next
    case (ran p w1 r0 w2 q)
    from ran(1) assms(2) have "faulty w1 = (\<lambda>i. False)" using init_pixels_kept by metis
    from loop[OF this init_pixels_time[OF ran(1)] ran(2)]
    have r0: "r0 = Inr ()" "faulty w2 = (\<lambda>i. False)" by simp_all
    from returnsD[OF returns_set_all r0(2), of black] ran(3) have "q = Inr ()"
      by auto
    with ran(4) r0(1) show ?thesis by simp
  qed
  with a show ?thesis by blast
qed

lemma alarm_expired_normal:
  assumes "RPI_AVAILABLE w" "faulty w = (\<lambda>i. False)" "d \<le> 0"
  shows "\<exists>w'. alarm d n ton toff tp w = Some (Inr (), w')"
  using assms(1,2)
proof (rule alarm_normal)
  fix w1 r0 w2
  assume f: "faulty w1 = (\<lambda>i. False)"
    and "while_elapsed (now w1) d (beep_group n ton toff tp) w1 = Some (r0, w2)"
  moreover from assms(3)
  have "while_elapsed (now w1) d (beep_group n ton toff tp) w1 = Some (Inr (), w1)"
    by (intro while_elapsed_expired) simp
  ultimately show "r0 = Inr () \<and> faulty w2 = (\<lambda>i. False)" by simp
next
  from assms(3) show "alarm d n ton toff tp w \<noteq> None" by (rule alarm_expired_returns)
qed

lemma alarm_flash_expired_normal:
  assumes "NEOPIXEL_AVAILABLE w" "faulty w = (\<lambda>i. False)" "d \<le> 0"
  shows "\<exists>w'. alarm_flash d ton toff n tp c w = Some (Inr (), w')"
  using assms(1,2)
proof (rule alarm_flash_normal)
  fix w1 r0 w2
  assume f: "faulty w1 = (\<lambda>i. False)" and t: "now w1 = now w"
    and "while_elapsed (now w) d (flash_group ton toff n tp c) w1 = Some (r0, w2)"
  moreover from assms(3) t
  have "while_elapsed (now w) d (flash_group ton toff n tp c) w1 = Some (Inr (), w1)"
    by (intro while_elapsed_expired) simp
  ultimately show "r0 = Inr () \<and> faulty w2 = (\<lambda>i. False)" by simp
next
  from assms(3) show "alarm_flash d ton toff n tp c w \<noteq> None"
    by (rule alarm_flash_expired_returns)
qed

text \<open>
  C9 (non-positive duration). Hardware available and \<open>duration \<le> 0\<close>: a call that
  returns normally has made, after the lazy initialisation (none when already
  initialised), exactly one force-off write and nothing else: no ACTIVE write and no
  sleep, the clock has not moved. \<open>alarm_flash\<close> still initialises the strip first when
  there is none. For such a duration both functions always return, and they return
  normally when no external call raises.
\<close>

theorem non_positive_duration:
  "(RPI_AVAILABLE w \<longrightarrow> d \<le> 0 \<longrightarrow> alarm d n ton toff tp w = Some (Inr (), w') \<longrightarrow>
      trace w' = trace w @ (if initialized w then [] else gpio_setup_calls) @
        [Output PIEZO_PIN LOW] \<and> now w' = now w) \<and>
   (NEOPIXEL_AVAILABLE v \<longrightarrow> d \<le> 0 \<longrightarrow>
      alarm_flash d ton toff n tp c v = Some (Inr (), v') \<longrightarrow>
      trace v' = trace v @ (case pixels v of None \<Rightarrow> strip_setup_calls | Some s \<Rightarrow> []) @
        [Fill black, Show] \<and> now v' = now v) \<and>
   (d \<le> 0 \<longrightarrow> alarm d n ton toff tp w \<noteq> None \<and> alarm_flash d ton toff n tp c v \<noteq> None) \<and>
   (RPI_AVAILABLE w \<longrightarrow> faulty w = (\<lambda>i. False) \<longrightarrow> d \<le> 0 \<longrightarrow>
      (\<exists>u. alarm d n ton toff tp w = Some (Inr (), u))) \<and>
   (NEOPIXEL_AVAILABLE v \<longrightarrow> faulty v = (\<lambda>i. False) \<longrightarrow> d \<le> 0 \<longrightarrow>
      (\<exists>u. alarm_flash d ton toff n tp c v = Some (Inr (), u)))"
proof (intro conjI impI)
  assume "RPI_AVAILABLE w" "d \<le> 0" "alarm d n ton toff tp w = Some (Inr (), w')"
  then show "trace w' = trace w @ (if initialized w then [] else gpio_setup_calls) @
        [Output PIEZO_PIN LOW]" "now w' = now w"
    using alarm_expired by blast+
next
  assume "NEOPIXEL_AVAILABLE v" "d \<le> 0" "alarm_flash d ton toff n tp c v = Some (Inr (), v')"
  then show "trace v' = trace v @ (case pixels v of None \<Rightarrow> strip_setup_calls | Some s \<Rightarrow> []) @
        [Fill black, Show]" "now v' = now v"
    using alarm_flash_expired by blast+
next
  assume "d \<le> 0"
  then show "alarm d n ton toff tp w \<noteq> None" "alarm_flash d ton toff n tp c v \<noteq> None"
    by (rule alarm_expired_returns, rule alarm_flash_expired_returns)
next
  assume "RPI_AVAILABLE w" "faulty w = (\<lambda>i. False)" "d \<le> 0"
  then show "\<exists>u. alarm d n ton toff tp w = Some (Inr (), u)" by (rule alarm_expired_normal)
next
  assume "NEOPIXEL_AVAILABLE v" "faulty v = (\<lambda>i. False)" "d \<le> 0"
  then show "\<exists>u. alarm_flash d ton toff n tp c v = Some (Inr (), u)"
    by (rule alarm_flash_expired_normal)
qed

theorem non_positive_duration_witness:
  "RPI_AVAILABLE piezo_on \<and> (-1 :: real) \<le> 0 \<and>
   alarm (-1) 3 (15/100) (1/10) (1/2) piezo_on =
     Some (Inr (), piezo_on\<lparr>trace := gpio_setup_calls @ [Output PIEZO_PIN LOW], calls := 4,
                     initialized := True\<rparr>) \<and>
   trace (piezo_on\<lparr>trace := gpio_setup_calls @ [Output PIEZO_PIN LOW], calls := 4,
                     initialized := True\<rparr>) =
     trace piezo_on @ (if initialized piezo_on then [] else gpio_setup_calls) @
        [Output PIEZO_PIN LOW] \<and>
   NEOPIXEL_AVAILABLE pixel_on \<and>
   alarm_flash (-1) (15/100) (1/10) 3 (1/2) (255, 0, 0) pixel_on =
     Some (Inr (), pixel_on\<lparr>trace := strip_setup_calls @ [Fill black, Show], calls := 5,
        pixels := Some strip0, buffer := replicate 8 black, leds := replicate 8 black\<rparr>) \<and>
   trace (pixel_on\<lparr>trace := strip_setup_calls @ [Fill black, Show], calls := 5,
        pixels := Some strip0, buffer := replicate 8 black, leds := replicate 8 black\<rparr>) =
     trace pixel_on @ (case pixels pixel_on of None \<Rightarrow> strip_setup_calls | Some s \<Rightarrow> []) @
        [Fill black, Show]"
proof -
  have 1: "RPI_AVAILABLE piezo_on" "(-1 :: real) \<le> 0" "NEOPIXEL_AVAILABLE pixel_on"
    "alarm (-1) 3 (15/100) (1/10) (1/2) piezo_on =
     Some (Inr (), piezo_on\<lparr>trace := gpio_setup_calls @ [Output PIEZO_PIN LOW], calls := 4,
                     initialized := True\<rparr>)"
    "alarm_flash (-1) (15/100) (1/10) 3 (1/2) (255, 0, 0) pixel_on =
     Some (Inr (), pixel_on\<lparr>trace := strip_setup_calls @ [Fill black, Show], calls := 5,
        pixels := Some strip0, buffer := replicate 8 black, leds := replicate 8 black\<rparr>)"
    by (simp_all add: eval_defs while_elapsed.simps)
  from non_positive_duration[where w = piezo_on and v = pixel_on and d = "-1" and n = 3
      and ton = "15/100" and toff = "1/10" and tp = "1/2" and c = "(255, 0, 0)"
      and w' = "piezo_on\<lparr>trace := gpio_setup_calls @ [Output PIEZO_PIN LOW], calls := 4,
                     initialized := True\<rparr>"
      and v' = "pixel_on\<lparr>trace := strip_setup_calls @ [Fill black, Show], calls := 5,
        pixels := Some strip0, buffer := replicate 8 black, leds := replicate 8 black\<rparr>"] 1
  show ?thesis by blast
qed

lemma piezo_alarm_cleanup_idle:
  "\<not> RPI_AVAILABLE w \<or> \<not> initialized w \<Longrightarrow> piezo_alarm_cleanup w = (Inr (), w)"
  by (auto simp: piezo_alarm_cleanup_def)

lemma piezo_alarm_cleanup_after:
  assumes "piezo_alarm_cleanup w = (Inr (), w1)"
  shows "\<not> RPI_AVAILABLE w1 \<or> \<not> initialized w1"
proof (cases "RPI_AVAILABLE w \<and> initialized w")
  case True
  with piezo_alarm_cleanup_ok[OF _ _ assms] show ?thesis by simp
next
  case False
  with assms piezo_alarm_cleanup_idle[of w] show ?thesis by auto
qed

lemma neopixel_alarm_cleanup_mock:
  "\<not> NEOPIXEL_AVAILABLE v \<Longrightarrow> pixels v = None \<Longrightarrow>
     neopixel_alarm_cleanup v = (Inr (), v\<lparr>trace := trace v @ [Print pixels_mock_notice]\<rparr>)"
  by (simp add: neopixel_alarm_cleanup_def init_pixels_def bindE_def andthen_def print_def ret_def)

lemma neopixel_alarm_cleanup_ok:
  assumes "NEOPIXEL_AVAILABLE v" "neopixel_alarm_cleanup v = (Inr (), v1)"
  shows "all_black v1 \<and>
     trace v1 = trace v @ (case pixels v of None \<Rightarrow> strip_setup_calls | Some s \<Rightarrow> []) @
       [Fill black, Show]"
proof -
  from assms(2) obtain p a where i: "init_pixels v = (Inr p, a)"
    and k: "(case p of None \<Rightarrow> ret () | Some s \<Rightarrow> set_all black) a = (Inr (), v1)"
    unfolding neopixel_alarm_cleanup_def by (elim bindE_cases) auto
  have "\<exists>s. pixels a = Some s \<and> p = Some s \<and>
      trace a = trace v @ (case pixels v of None \<Rightarrow> strip_setup_calls | Some s \<Rightarrow> [])"
  proof (cases "pixels v")
    case None
    with init_pixels_ok[OF assms(1) i] show ?thesis
      by (simp add: strip_setup_calls_def strip0_def)
  next
    case (Some s)
    with init_pixels_ok[OF assms(1) i] show ?thesis by simp
  qed
  then obtain s where a: "pixels a = Some s" "p = Some s"
    "trace a = trace v @ (case pixels v of None \<Rightarrow> strip_setup_calls | Some s \<Rightarrow> [])"
    by blast
  from k a(2) have "set_all black a = (Inr (), v1)" by simp
  from set_all_ok[OF a(1) this] have "trace v1 = trace a @ [Fill black, Show]"
    "pixels v1 = Some s" "leds v1 = replicate (strip_n s) black"
    using a(1) by simp_all
  with a(3) show ?thesis by (simp add: all_black_def)
qed

lemma neopixel_alarm_cleanup_returns:
  assumes "faulty v = (\<lambda>i. False)"
  shows "fst (neopixel_alarm_cleanup v) = Inr ()"
  using assms
  by (cases "pixels v")
     (simp_all add: neopixel_alarm_cleanup_def init_pixels_def bindE_def andthen_def print_def
       ret_def set_all_def neopixel_NeoPixel_def strip_fill_def strip_show_def extern_def Let_def)

text \<open>
  C3, as stated, fails for the pixel driver. In the pre-init state on hardware its
  \<open>cleanup\<close> makes five external calls (construct, fill black, show, fill black, show),
  and in mock mode it prints a notice: it is not a no-op in either state.
\<close>

theorem cleanup_not_noop_counterexample:
  "pixels pixel_on = None \<and>
   neopixel_alarm_cleanup pixel_on =
     (Inr (), pixel_on\<lparr>trace := [New strip0, Fill black, Show, Fill black, Show], calls := 5,
        pixels := Some strip0, buffer := replicate 8 black, leds := replicate 8 black\<rparr>) \<and>
   \<not> NEOPIXEL_AVAILABLE boot \<and>
   neopixel_alarm_cleanup boot = (Inr (), boot\<lparr>trace := [Print pixels_mock_notice]\<rparr>)"
  by (simp add: eval_defs)

text \<open>
  C3, amended (cleanup safety). Piezo \<open>cleanup\<close> in mock mode or before initialisation
  is a no-op that returns normally, however often it is called; after any piezo
  \<open>cleanup\<close> that returned, further calls are no-ops, and the pin is LOW when the
  driver had been initialised on hardware. Pixel \<open>cleanup\<close> in mock mode makes no
  external call and prints one notice; on hardware a call that returns has initialised
  the strip if there was none, then filled black and shown, and every pixel displays
  black; it returns normally whenever no external call raises.
\<close>

theorem cleanup_safety:
  "(\<not> RPI_AVAILABLE w \<or> \<not> initialized w \<longrightarrow> repeat k piezo_alarm_cleanup w = (Inr (), w)) \<and>
   (piezo_alarm_cleanup w = (Inr (), w1) \<longrightarrow>
      repeat k piezo_alarm_cleanup w1 = (Inr (), w1) \<and>
      (RPI_AVAILABLE w \<and> initialized w \<longrightarrow> pin w1 = LOW)) \<and>
   (\<not> NEOPIXEL_AVAILABLE v \<longrightarrow> pixels v = None \<longrightarrow>
      neopixel_alarm_cleanup v = (Inr (), v\<lparr>trace := trace v @ [Print pixels_mock_notice]\<rparr>)) \<and>
   (NEOPIXEL_AVAILABLE v \<longrightarrow> neopixel_alarm_cleanup v = (Inr (), v1) \<longrightarrow>
      all_black v1 \<and>
      trace v1 = trace v @ (case pixels v of None \<Rightarrow> strip_setup_calls | Some s \<Rightarrow> []) @
        [Fill black, Show]) \<and>
   (faulty v = (\<lambda>i. False) \<longrightarrow> fst (neopixel_alarm_cleanup v) = Inr ())"
proof (intro conjI impI)
  assume "\<not> RPI_AVAILABLE w \<or> \<not> initialized w"
  then have "piezo_alarm_cleanup w = (Inr (), w)" by (rule piezo_alarm_cleanup_idle)
  then show "repeat k piezo_alarm_cleanup w = (Inr (), w)" by (rule repeat_fixed)
next
  assume a: "piezo_alarm_cleanup w = (Inr (), w1)"
  then have "\<not> RPI_AVAILABLE w1 \<or> \<not> initialized w1" by (rule piezo_alarm_cleanup_after)
  then have "piezo_alarm_cleanup w1 = (Inr (), w1)" by (rule piezo_alarm_cleanup_idle)
  then show "repeat k piezo_alarm_cleanup w1 = (Inr (), w1)" by (rule repeat_fixed)
  assume "RPI_AVAILABLE w \<and> initialized w"
  with piezo_alarm_cleanup_ok[OF _ _ a] show "pin w1 = LOW" by simp
next
  assume "\<not> NEOPIXEL_AVAILABLE v" "pixels v = None"
  then show "neopixel_alarm_cleanup v = (Inr (), v\<lparr>trace := trace v @ [Print pixels_mock_notice]\<rparr>)"
    by (rule neopixel_alarm_cleanup_mock)
next
  assume "NEOPIXEL_AVAILABLE v" "neopixel_alarm_cleanup v = (Inr (), v1)"
  then show "all_black v1"
    "trace v1 = trace v @ (case pixels v of None \<Rightarrow> strip_setup_calls | Some s \<Rightarrow> []) @
        [Fill black, Show]"
    using neopixel_alarm_cleanup_ok by blast+
next
  assume "faulty v = (\<lambda>i. False)"
  then show "fst (neopixel_alarm_cleanup v) = Inr ()" by (rule neopixel_alarm_cleanup_returns)
qed

theorem cleanup_safety_witness:
  "\<not> initialized piezo_on \<and>
   repeat 2 piezo_alarm_cleanup piezo_on = (Inr (), piezo_on) \<and>
   piezo_alarm_cleanup (piezo_on\<lparr>initialized := True, pin := HIGH\<rparr>) =
     (Inr (), piezo_on\<lparr>trace := [Output 4 LOW, Cleanup 4], calls := 2\<rparr>) \<and>
   RPI_AVAILABLE (piezo_on\<lparr>initialized := True, pin := HIGH\<rparr>) \<and>
   initialized (piezo_on\<lparr>initialized := True, pin := HIGH\<rparr>) \<and>
   repeat 2 piezo_alarm_cleanup (piezo_on\<lparr>trace := [Output 4 LOW, Cleanup 4], calls := 2\<rparr>) =
     (Inr (), piezo_on\<lparr>trace := [Output 4 LOW, Cleanup 4], calls := 2\<rparr>) \<and>
   pin (piezo_on\<lparr>trace := [Output 4 LOW, Cleanup 4], calls := 2\<rparr>) = LOW \<and>
   \<not> NEOPIXEL_AVAILABLE boot \<and> pixels boot = None \<and>
   neopixel_alarm_cleanup boot = (Inr (), boot\<lparr>trace := trace boot @ [Print pixels_mock_notice]\<rparr>) \<and>
   NEOPIXEL_AVAILABLE pixel_on \<and>
   neopixel_alarm_cleanup pixel_on =
     (Inr (), pixel_on\<lparr>trace := [New strip0, Fill black, Show, Fill black, Show], calls := 5,
        pixels := Some strip0, buffer := replicate 8 black, leds := replicate 8 black\<rparr>) \<and>
   all_black (pixel_on\<lparr>trace := [New strip0, Fill black, Show, Fill black, Show], calls := 5,
        pixels := Some strip0, buffer := replicate 8 black, leds := replicate 8 black\<rparr>) \<and>
   faulty pixel_on = (\<lambda>i. False) \<and> fst (neopixel_alarm_cleanup pixel_on) = Inr ()"
proof -
  have 1: "\<not> initialized piezo_on"
    "piezo_alarm_cleanup (piezo_on\<lparr>initialized := True, pin := HIGH\<rparr>) =
     (Inr (), piezo_on\<lparr>trace := [Output 4 LOW, Cleanup 4], calls := 2\<rparr>)"
    "RPI_AVAILABLE (piezo_on\<lparr>initialized := True, pin := HIGH\<rparr>)"
    "initialized (piezo_on\<lparr>initialized := True, pin := HIGH\<rparr>)"
    "\<not> NEOPIXEL_AVAILABLE boot" "pixels boot = None"
    "NEOPIXEL_AVAILABLE pixel_on"
    "neopixel_alarm_cleanup pixel_on =
     (Inr (), pixel_on\<lparr>trace := [New strip0, Fill black, Show, Fill black, Show], calls := 5,
        pixels := Some strip0, buffer := replicate 8 black, leds := replicate 8 black\<rparr>)"
    "faulty pixel_on = (\<lambda>i. False)"
    by (simp_all add: eval_defs)
  from cleanup_safety[where w = piezo_on and ?w1.0 = piezo_on and k = 2 and v = boot and ?v1.0 = boot]
    cleanup_safety[where w = "piezo_on\<lparr>initialized := True, pin := HIGH\<rparr>"
      and ?w1.0 = "piezo_on\<lparr>trace := [Output 4 LOW, Cleanup 4], calls := 2\<rparr>" and k = 2
      and v = pixel_on
      and ?v1.0 = "pixel_on\<lparr>trace := [New strip0, Fill black, Show, Fill black, Show], calls := 5,
        pixels := Some strip0, buffer := replicate 8 black, leds := replicate 8 black\<rparr>"] 1
  show ?thesis by blast
qed

text \<open>
  C7, as stated, fails: loading either module with a failed import prints nothing. The
  notice the claim places at process start does not exist there.
\<close>

theorem module_load_silent_counterexample:
  "\<not> RPI_AVAILABLE (piezo_alarm_module False boot) \<and>
   printed (piezo_alarm_module False boot) = [] \<and>
   \<not> NEOPIXEL_AVAILABLE (neopixel_alarm_module False boot) \<and>
   printed (neopixel_alarm_module False boot) = []"
  by (simp add: eval_defs)

lemma alarm_flag:
  assumes "alarm d n ton toff tp w = Some (r, w')"
  shows "RPI_AVAILABLE w' = RPI_AVAILABLE w"
proof (cases "RPI_AVAILABLE w")
  case False
  with assms show ?thesis by (auto simp: alarm_def print_def)
next
  case True
  with assms show ?thesis
  proof (cases rule: alarm_cases)
    case (init_raised e)
    then show ?thesis using init_gpio_kept by blast
  next
    case (ran w1 r0 w2 q)
    from ran(1) have "RPI_AVAILABLE w1 = RPI_AVAILABLE w" using init_gpio_kept by blast
    moreover from ran(2) have "kept w1 w2" by (rule while_kept) (rule beep_group_kept)
    moreover from ran(3) have "kept w2 w'" by (rule GPIO_output_kept)
    ultimately show ?thesis by (simp add: kept_def)
  qed
qed

lemma alarm_flash_flag:
  assumes "alarm_flash d ton toff n tp c w = Some (r, w')"
  shows "NEOPIXEL_AVAILABLE w' = NEOPIXEL_AVAILABLE w"
proof (cases "NEOPIXEL_AVAILABLE w")
  case False
  with assms show ?thesis by (auto simp: alarm_flash_def print_def)
next
  case True
  with assms show ?thesis
  proof (cases rule: alarm_flash_cases)
    case (init_raised e)
    then show ?thesis using init_pixels_kept by blast
  next
    case (ran p w1 r0 w2 q)
    from ran(1) have 1: "NEOPIXEL_AVAILABLE w1 = NEOPIXEL_AVAILABLE w"
      using init_pixels_kept by blast
    from init_pixels_ok[OF True ran(1)] have 2: "pixels w1 \<noteq> None"
      by (cases "pixels w") auto
    from ran(2) have "keptP w1 w2" by (rule while_keptP) (rule flash_group_keptP)
    with 2 have 3: "kept w1 w2" by (simp add: keptP_def)
    with 2 have "pixels w2 \<noteq> None" by (simp add: kept_def)
    moreover from ran(3) have "keptP w2 w'" by (rule set_all_keptP)
    ultimately have "kept w2 w'" by (simp add: keptP_def)
    with 1 3 show ?thesis by (simp add: kept_def)
  qed
qed

lemma piezo_alarm_cleanup_flag:
  "piezo_alarm_cleanup w = (r, w1) \<Longrightarrow> RPI_AVAILABLE w1 = RPI_AVAILABLE w"
  by (auto simp: piezo_alarm_cleanup_def andthen_def bindE_def GPIO_output_def GPIO_cleanup_def
      extern_def Let_def split: if_splits)

lemma set_all_flag:
  "set_all c w = (r, w1) \<Longrightarrow> NEOPIXEL_AVAILABLE w1 = NEOPIXEL_AVAILABLE w"
  unfolding set_all_def
  by (erule bindE_cases)
     (auto dest!: init_pixels_kept simp: ret_def andthen_def bindE_def strip_fill_def
        strip_show_def extern_def Let_def split: if_splits option.splits)

lemma neopixel_alarm_cleanup_flag:
  "neopixel_alarm_cleanup w = (r, w1) \<Longrightarrow> NEOPIXEL_AVAILABLE w1 = NEOPIXEL_AVAILABLE w"
  unfolding neopixel_alarm_cleanup_def
  by (erule bindE_cases)
     (auto dest!: init_pixels_kept set_all_flag simp: ret_def split: option.splits)

lemma printed_append: "printed (w\<lparr>trace := trace w @ [Print s]\<rparr>) = printed w @ [s]"
  by (simp add: printed_def)

text \<open>
  C7, amended (availability detection). Loading a module sets its availability flag to
  the outcome of the import (the only place where the flag is assigned) and prints
  nothing; being a plain state update it surfaces no exception. No function of either
  driver changes the flag afterwards. With the piezo flag false every \<open>GPIO\<close> method is
  a no-op; with the pixel flag false the name \<open>neopixel\<close> is \<open>None\<close>, so the
  constructor would raise AttributeError (no mock strip is substituted; the driver
  never reaches it). The mock notice is printed later, once per call of \<open>alarm\<close> or
  \<open>alarm_flash\<close>.
\<close>

theorem availability_detection:
  "RPI_AVAILABLE (piezo_alarm_module ok w) = ok \<and>
   trace (piezo_alarm_module ok w) = trace w \<and>
   NEOPIXEL_AVAILABLE (neopixel_alarm_module ok w) = ok \<and>
   trace (neopixel_alarm_module ok w) = trace w \<and>
   (\<not> RPI_AVAILABLE w \<longrightarrow>
      GPIO_setmode m w = (Inr (), w) \<and> GPIO_setup p dir w = (Inr (), w) \<and>
      GPIO_output p l w = (Inr (), w) \<and> GPIO_cleanup p w = (Inr (), w)) \<and>
   (\<not> NEOPIXEL_AVAILABLE w \<longrightarrow> neopixel_NeoPixel sp sn sb aw w = (Inl AttributeError, w)) \<and>
   (alarm d n ton toff tp w = Some (r, w') \<longrightarrow> RPI_AVAILABLE w' = RPI_AVAILABLE w) \<and>
   (piezo_alarm_cleanup w = (r1, w1) \<longrightarrow> RPI_AVAILABLE w1 = RPI_AVAILABLE w) \<and>
   (alarm_flash d ton toff n tp c w = Some (q, v') \<longrightarrow>
      NEOPIXEL_AVAILABLE v' = NEOPIXEL_AVAILABLE w) \<and>
   (neopixel_alarm_cleanup w = (q1, v1) \<longrightarrow> NEOPIXEL_AVAILABLE v1 = NEOPIXEL_AVAILABLE w) \<and>
   (\<not> RPI_AVAILABLE w \<longrightarrow> alarm d n ton toff tp w = Some (r, w') \<longrightarrow>
      printed w' = printed w @ [piezo_mock_notice]) \<and>
   (\<not> NEOPIXEL_AVAILABLE w \<longrightarrow> alarm_flash d ton toff n tp c w = Some (q, v') \<longrightarrow>
      printed v' = printed w @ [flash_mock_notice])"
proof (intro conjI impI)
  show "RPI_AVAILABLE (piezo_alarm_module ok w) = ok" "trace (piezo_alarm_module ok w) = trace w"
    by (simp_all add: piezo_alarm_module_def)
  show "NEOPIXEL_AVAILABLE (neopixel_alarm_module ok w) = ok"
    "trace (neopixel_alarm_module ok w) = trace w"
    by (simp_all add: neopixel_alarm_module_def)
next
  assume "\<not> RPI_AVAILABLE w"
  then show "GPIO_setmode m w = (Inr (), w)" "GPIO_setup p dir w = (Inr (), w)"
    "GPIO_output p l w = (Inr (), w)" "GPIO_cleanup p w = (Inr (), w)"
    by (simp_all add: GPIO_setmode_def GPIO_setup_def GPIO_output_def GPIO_cleanup_def)
next
  assume "\<not> NEOPIXEL_AVAILABLE w"
  then show "neopixel_NeoPixel sp sn sb aw w = (Inl AttributeError, w)"
    by (simp add: neopixel_NeoPixel_def)
next
  assume "alarm d n ton toff tp w = Some (r, w')"
  then show "RPI_AVAILABLE w' = RPI_AVAILABLE w" by (rule alarm_flag)
next
  assume "piezo_alarm_cleanup w = (r1, w1)"
  then show "RPI_AVAILABLE w1 = RPI_AVAILABLE w" by (rule piezo_alarm_cleanup_flag)
next
  assume "alarm_flash d ton toff n tp c w = Some (q, v')"
  then show "NEOPIXEL_AVAILABLE v' = NEOPIXEL_AVAILABLE w" by (rule alarm_flash_flag)
next
  assume "neopixel_alarm_cleanup w = (q1, v1)"
  then show "NEOPIXEL_AVAILABLE v1 = NEOPIXEL_AVAILABLE w" by (rule neopixel_alarm_cleanup_flag)
next
  assume "\<not> RPI_AVAILABLE w" "alarm d n ton toff tp w = Some (r, w')"
  then show "printed w' = printed w @ [piezo_mock_notice]"
    by (auto simp: alarm_def print_def printed_append)
next
  assume "\<not> NEOPIXEL_AVAILABLE w" "alarm_flash d ton toff n tp c w = Some (q, v')"
  then show "printed v' = printed w @ [flash_mock_notice]"
    by (auto simp: alarm_flash_def print_def printed_append)
qed

theorem availability_detection_witness:
  "\<not> RPI_AVAILABLE (piezo_alarm_module False boot) \<and>
   GPIO_output PIEZO_PIN HIGH (piezo_alarm_module False boot) =
     (Inr (), piezo_alarm_module False boot) \<and>
   \<not> NEOPIXEL_AVAILABLE (piezo_alarm_module False boot) \<and>
   alarm 5 3 (15/100) (1/10) (1/2) (piezo_alarm_module False boot) =
     Some (Inr (), boot\<lparr>trace := [Print piezo_mock_notice]\<rparr>) \<and>
   RPI_AVAILABLE (boot\<lparr>trace := [Print piezo_mock_notice]\<rparr>) =
     RPI_AVAILABLE (piezo_alarm_module False boot) \<and>
   printed (boot\<lparr>trace := [Print piezo_mock_notice]\<rparr>) =
     printed (piezo_alarm_module False boot) @ [piezo_mock_notice] \<and>
   alarm_flash 5 (15/100) (1/10) 3 (1/2) (255, 0, 0) (piezo_alarm_module False boot) =
     Some (Inr (), boot\<lparr>trace := [Print flash_mock_notice]\<rparr>) \<and>
   printed (boot\<lparr>trace := [Print flash_mock_notice]\<rparr>) =
     printed (piezo_alarm_module False boot) @ [flash_mock_notice]"
proof -
  have 1: "\<not> RPI_AVAILABLE (piezo_alarm_module False boot)"
    "\<not> NEOPIXEL_AVAILABLE (piezo_alarm_module False boot)"
    "alarm 5 3 (15/100) (1/10) (1/2) (piezo_alarm_module False boot) =
     Some (Inr (), boot\<lparr>trace := [Print piezo_mock_notice]\<rparr>)"
    "alarm_flash 5 (15/100) (1/10) 3 (1/2) (255, 0, 0) (piezo_alarm_module False boot) =
     Some (Inr (), boot\<lparr>trace := [Print flash_mock_notice]\<rparr>)"
    by (simp_all add: eval_defs)
  from availability_detection[where w = "piezo_alarm_module False boot" and d = 5 and n = 3
      and ton = "15/100" and toff = "1/10" and tp = "1/2" and c = "(255, 0, 0)"
      and r = "Inr ()" and q = "Inr ()" and p = PIEZO_PIN and l = HIGH
      and w' = "boot\<lparr>trace := [Print piezo_mock_notice]\<rparr>"
      and v' = "boot\<lparr>trace := [Print flash_mock_notice]\<rparr>"] 1
  show ?thesis by blast
qed

lemma while_time_bound:
  assumes "while_elapsed s d b w = Some (r, w')" and "now w - s \<le> d + c"
    and step: "\<And>v q v1. b v = (q, v1) \<Longrightarrow> now v1 \<le> now v + c"
  shows "now w' - s \<le> d + c"
proof -
  have "(r = Inr () \<and> now w' - s \<le> d + c \<and> \<not> now w' - s < d) \<or>
        (\<exists>e v. r = Inl e \<and> now v - s \<le> d + c \<and> now v - s < d \<and> b v = (Inl e, w'))"
    using assms(1,2)
  proof (rule while_rule)
    fix v v1 assume "now v - s < d" "b v = (Inr (), v1)"
    then show "now v1 - s \<le> d + c" using step[of v "Inr ()" v1] by linarith
  qed
  then show ?thesis
  proof
    assume "r = Inr () \<and> now w' - s \<le> d + c \<and> \<not> now w' - s < d"
    then show ?thesis by simp
  next
    assume "\<exists>e v. r = Inl e \<and> now v - s \<le> d + c \<and> now v - s < d \<and> b v = (Inl e, w')"
    then obtain e v where "now v - s < d" "b v = (Inl e, w')" by blast
    then show ?thesis using step[of v "Inl e" w'] by linarith
  qed
qed

lemma alarm_overshoot:
  assumes "0 < d" "0 \<le> n" "0 \<le> ton" "0 \<le> toff" "0 \<le> tp"
    and "alarm d n ton toff tp w = Some (r, w')"
  shows "now w' - now w \<le> d + (real_of_int n * (ton + toff) + tp)"
proof -
  from assms(2-5) have c: "0 \<le> real_of_int n * (ton + toff) + tp" by simp
  from assms(2) have n: "real (nat n) = real_of_int n" by simp
  show ?thesis
  proof (cases "RPI_AVAILABLE w")
    case False
    with assms(6) have "now w' = now w" by (auto simp: alarm_def print_def)
    with c assms(1) show ?thesis by simp
  next
    case True
    with assms(6) show ?thesis
    proof (cases rule: alarm_cases)
      case (init_raised e)
      then have "now w' = now w" using init_gpio_kept by blast
      with c assms(1) show ?thesis by simp
    next
      case (ran w1 r0 w2 q)
      from ran(1) have 1: "now w1 = now w" using init_gpio_kept by blast
      from ran(2) have "now w2 - now w1 \<le> d + (real_of_int n * (ton + toff) + tp)"
      proof (rule while_time_bound)
        show "now w1 - now w1 \<le> d + (real_of_int n * (ton + toff) + tp)"
          using c assms(1) by simp
      next
        fix v q v1 assume "beep_group n ton toff tp v = (q, v1)"
        from beep_group_time[OF this assms(3,4,5)]
        show "now v1 \<le> now v + (real_of_int n * (ton + toff) + tp)" by (simp add: n)
      qed
      moreover from ran(3) have "now w' = now w2" by (rule GPIO_output_time)
      ultimately show ?thesis using 1 by simp
    qed
  qed
qed

lemma alarm_flash_overshoot:
  assumes "0 < d" "0 \<le> n" "0 \<le> ton" "0 \<le> toff" "0 \<le> tp"
    and "alarm_flash d ton toff n tp c w = Some (r, w')"
  shows "now w' - now w \<le> d + (real_of_int n * (ton + toff) + tp)"
proof -
  from assms(2-5) have c: "0 \<le> real_of_int n * (ton + toff) + tp" by simp
  from assms(2) have n: "real (nat n) = real_of_int n" by simp
  show ?thesis
  proof (cases "NEOPIXEL_AVAILABLE w")
    case False
    with assms(6) have "now w' = now w" by (auto simp: alarm_flash_def print_def)
    with c assms(1) show ?thesis by simp
  next
    case True
    with assms(6) show ?thesis
    proof (cases rule: alarm_flash_cases)
      case (init_raised e)
      then have "now w' = now w" using init_pixels_time by blast
      with c assms(1) show ?thesis by simp
    next
      case (ran p w1 r0 w2 q)
      from ran(1) have 1: "now w1 = now w" by (rule init_pixels_time)
      from ran(2) have "now w2 - now w \<le> d + (real_of_int n * (ton + toff) + tp)"
      proof (rule while_time_bound)
        show "now w1 - now w \<le> d + (real_of_int n * (ton + toff) + tp)"
          using c assms(1) 1 by simp
      next
        fix v q v1 assume "flash_group ton toff n tp c v = (q, v1)"
        from flash_group_time[OF this assms(3,4,5)]
        show "now v1 \<le> now v + (real_of_int n * (ton + toff) + tp)" by (simp add: n)
      qed
      moreover from ran(3) have "now w' = now w2" by (rule set_all_time)
      ultimately show ?thesis by simp
    qed
  qed
qed

lemma unroll_enough:
  assumes c: "0 < c"
    and adv: "\<And>v v1. b v = (Inr (), v1) \<Longrightarrow> now v + c \<le> now v1"
    and s: "now w = s"
  shows "\<exists>y. unroll (nat \<lceil>d / c\<rceil>) s d b w = Some y \<and> while_elapsed s d b w = Some y"
proof -
  from s have "nat \<lceil>(d - (now w - s)) / c\<rceil> \<le> nat \<lceil>d / c\<rceil>" by simp
  with c adv obtain y where "unroll (nat \<lceil>d / c\<rceil>) s d b w = Some y"
    using unroll_terminates by blast
  then show ?thesis using unroll_while by blast
qed

lemma alarm_returns:
  assumes "\<And>w1. while_elapsed (now w1) d (beep_group n ton toff tp) w1 \<noteq> None"
  shows "alarm d n ton toff tp w \<noteq> None"
proof (cases "RPI_AVAILABLE w")
  case False
  then show ?thesis by (simp add: alarm_def)
next
  case True
  obtain r1 w1 where i: "init_gpio w = (r1, w1)" by (cases "init_gpio w")
  show ?thesis
  proof (cases r1)
    case (Inl e)
    with True i show ?thesis by (simp add: alarm_def)
  next
    case (Inr u)
    from assms have "try_finally (while_elapsed (now w1) d (beep_group n ton toff tp))
        (GPIO_output PIEZO_PIN LOW) w1 \<noteq> None"
      by (rule try_finally_returns)
    with True i Inr show ?thesis by (simp add: alarm_def)
  qed
qed

lemma alarm_flash_returns:
  assumes "\<And>w1. now w1 = now w \<Longrightarrow>
    while_elapsed (now w) d (flash_group ton toff n tp c) w1 \<noteq> None"
  shows "alarm_flash d ton toff n tp c w \<noteq> None"
proof (cases "NEOPIXEL_AVAILABLE w")
  case False
  then show ?thesis by (simp add: alarm_flash_def)
next
  case True
  obtain r1 w1 where i: "init_pixels w = (r1, w1)" by (cases "init_pixels w")
  show ?thesis
  proof (cases r1)
    case (Inl e)
    with True i show ?thesis by (simp add: alarm_flash_def)
  next
    case (Inr u)
    from init_pixels_time[OF i]
    have "while_elapsed (now w) d (flash_group ton toff n tp c) w1 \<noteq> None"
      by (rule assms)
    then have "try_finally (while_elapsed (now w) d (flash_group ton toff n tp c))
        (set_all black) w1 \<noteq> None"
      by (rule try_finally_returns)
    with True i Inr show ?thesis by (simp add: alarm_flash_def)
  qed
qed

lemma beep_group_advances:
  "0 \<le> n \<Longrightarrow> beep_group n ton toff tp v = (Inr (), v1) \<Longrightarrow>
     now v + (real_of_int n * (ton + toff) + tp) \<le> now v1"
  by (drule beep_group_adv) simp

lemma flash_group_advances:
  "0 \<le> n \<Longrightarrow> flash_group ton toff n tp c v = (Inr (), v1) \<Longrightarrow>
     now v + (real_of_int n * (ton + toff) + tp) \<le> now v1"
  by (drule flash_group_adv) simp

lemma beep_loop_enough:
  assumes "0 \<le> n" "0 < real_of_int n * (ton + toff) + tp" "now u = s"
  shows "\<exists>y. unroll (nat \<lceil>d / (real_of_int n * (ton + toff) + tp)\<rceil>) s d
           (beep_group n ton toff tp) u = Some y \<and>
         while_elapsed s d (beep_group n ton toff tp) u = Some y"
  using assms(2) beep_group_advances[OF assms(1)] assms(3) by (rule unroll_enough)

lemma flash_loop_enough:
  assumes "0 \<le> n" "0 < real_of_int n * (ton + toff) + tp" "now u = s"
  shows "\<exists>y. unroll (nat \<lceil>d / (real_of_int n * (ton + toff) + tp)\<rceil>) s d
           (flash_group ton toff n tp c) u = Some y \<and>
         while_elapsed s d (flash_group ton toff n tp c) u = Some y"
  using assms(2) flash_group_advances[OF assms(1)] assms(3) by (rule unroll_enough)

lemma alarm_terminates:
  assumes "0 \<le> n" "0 < real_of_int n * (ton + toff) + tp"
  shows "alarm d n ton toff tp w \<noteq> None"
proof (rule alarm_returns)
  fix w1 :: world from beep_loop_enough[OF assms refl, where d = d and u = w1]
  show "while_elapsed (now w1) d (beep_group n ton toff tp) w1 \<noteq> None" by auto
qed

lemma alarm_flash_terminates:
  assumes "0 \<le> n" "0 < real_of_int n * (ton + toff) + tp"
  shows "alarm_flash d ton toff n tp c w \<noteq> None"
proof (rule alarm_flash_returns)
  fix w1 :: world assume "now w1 = now w"
  from flash_loop_enough[OF assms this, where d = d and c = c]
  show "while_elapsed (now w) d (flash_group ton toff n tp c) w1 \<noteq> None" by auto
qed

lemma concat_replicate_snoc: "concat (replicate k g) @ g = concat (replicate (Suc k) g)"
  by (induction k) simp_all

lemma filter_concat_replicate:
  "length (filter P (concat (replicate k g))) = k * length (filter P g)"
  by (induction k) simp_all

lemma beep_group_toggles:
  "length (filter is_output (beep_group_calls n ton toff tp)) = 2 * nat n"
  by (simp add: beep_group_calls_def beep_calls_def is_output_def filter_concat_replicate)

lemma flash_group_toggles:
  "length (filter is_fill (flash_group_calls n ton toff tp c)) = 2 * nat n"
  by (simp add: flash_group_calls_def flash_calls_def is_fill_def filter_concat_replicate)

lemma toggles_dvd: "2 * n dvd int (k * (2 * nat n))"
proof (cases "0 \<le> n")
  case True
  then have "int (k * (2 * nat n)) = int k * (2 * n)" by simp
  then show ?thesis by simp
next
  case False
  then show ?thesis by simp
qed

text \<open>The loop invariant of a run without exception: \<open>k\<close> whole groups so far.\<close>

lemma while_groups:
  assumes run: "while_elapsed s d b w = Some (Inr (), w')"
    and P: "P w" and s: "now w = s"
    and step: "\<And>v v1. P v \<Longrightarrow> b v = (Inr (), v1) \<Longrightarrow>
      P v1 \<and> trace v1 = trace v @ g \<and> now v1 = now v + c"
  shows "\<exists>k. P w' \<and> trace w' = trace w @ concat (replicate k g) \<and>
     now w' = now w + real k * c \<and> d \<le> real k * c \<and> (\<forall>i<k. real i * c < d)"
proof -
  let ?I = "\<lambda>v. \<exists>k. P v \<and> trace v = trace w @ concat (replicate k g) \<and>
     now v = now w + real k * c \<and> (\<forall>i<k. real i * c < d)"
  have "?I w"
    using P by (intro exI[of _ 0]) simp
  with run have "(Inr () = (Inr () :: exn + unit) \<and> ?I w' \<and> \<not> now w' - s < d) \<or>
     (\<exists>e v. (Inr () :: exn + unit) = Inl e \<and> ?I v \<and> now v - s < d \<and> b v = (Inl e, w'))"
  proof (rule while_rule)
    fix v v1 assume I: "?I v" and lt: "now v - s < d" and b: "b v = (Inr (), v1)"
    from I obtain k where k: "P v" "trace v = trace w @ concat (replicate k g)"
      "now v = now w + real k * c" "\<forall>i<k. real i * c < d" by blast
    from step[OF k(1) b] have 1: "P v1" "trace v1 = trace v @ g" "now v1 = now v + c"
      by simp_all
    from lt k(3) s have "real k * c < d" by simp
    with k(4) have "\<forall>i<Suc k. real i * c < d" by (simp add: less_Suc_eq)
    moreover from 1 k have "trace v1 = trace w @ concat (replicate (Suc k) g)"
      using concat_replicate_snoc[of k g] by simp
    moreover from 1 k have "now v1 = now w + real (Suc k) * c" by (simp add: algebra_simps)
    ultimately show "?I v1" using 1(1) by blast
  qed
  then have "?I w'" and ge: "\<not> now w' - s < d" by simp_all
  then obtain k where k: "P w'" "trace w' = trace w @ concat (replicate k g)"
      "now w' = now w + real k * c" "\<forall>i<k. real i * c < d" by blast
  from ge k(3) s have "d \<le> real k * c" by simp
  with k show ?thesis by blast
qed

lemma alarm_pattern:
  assumes "RPI_AVAILABLE w" "alarm d n ton toff tp w = Some (Inr (), w')"
  shows "\<exists>k. trace w' = trace w @ (if initialized w then [] else gpio_setup_calls) @
           concat (replicate k (beep_group_calls n ton toff tp)) @ [Output PIEZO_PIN LOW] \<and>
         now w' = now w + real k * (real (nat n) * (ton + toff) + tp) \<and>
         d \<le> real k * (real (nat n) * (ton + toff) + tp) \<and>
         (\<forall>i<k. real i * (real (nat n) * (ton + toff) + tp) < d)"
  using assms(2,1)
proof (cases rule: alarm_cases)
  case (init_raised e)
  from init_raised(2) have False by simp
  then show ?thesis ..
next
  case (ran w1 r0 w2 q)
  from ran(4) have "q = Inr () \<and> r0 = Inr ()" by (cases q) auto
  then have q: "q = Inr ()" and r0: "r0 = Inr ()" by simp_all
  have w1: "RPI_AVAILABLE w1 \<and>
    trace w1 = trace w @ (if initialized w then [] else gpio_setup_calls) \<and> now w1 = now w"
  proof (cases "initialized w")
    case True
    with init_gpio_ok[OF assms(1) ran(1)] assms(1) show ?thesis by simp
  next
    case False
    with init_gpio_ok[OF assms(1) ran(1)] assms(1) show ?thesis
      by (simp add: gpio_setup_calls_def)
  qed
  from ran(2) r0 have "while_elapsed (now w1) d (beep_group n ton toff tp) w1 = Some (Inr (), w2)"
    by simp
  then have "\<exists>k. RPI_AVAILABLE w2 \<and>
      trace w2 = trace w1 @ concat (replicate k (beep_group_calls n ton toff tp)) \<and>
      now w2 = now w1 + real k * (real (nat n) * (ton + toff) + tp) \<and>
      d \<le> real k * (real (nat n) * (ton + toff) + tp) \<and>
      (\<forall>i<k. real i * (real (nat n) * (ton + toff) + tp) < d)"
  proof (rule while_groups)
    show "RPI_AVAILABLE w1" using w1 by simp
    show "now w1 = now w1" by simp
  next
    fix v v1 assume v: "RPI_AVAILABLE v" "beep_group n ton toff tp v = (Inr (), v1)"
    from beep_group_kept[OF v(2)] v(1) have "RPI_AVAILABLE v1" by (simp add: kept_def)
    with beep_group_ok[OF v] beep_group_adv[OF v(2)]
    show "RPI_AVAILABLE v1 \<and> trace v1 = trace v @ beep_group_calls n ton toff tp \<and>
      now v1 = now v + (real (nat n) * (ton + toff) + tp)" by simp
  qed
  then obtain k where k: "RPI_AVAILABLE w2"
      "trace w2 = trace w1 @ concat (replicate k (beep_group_calls n ton toff tp))"
      "now w2 = now w1 + real k * (real (nat n) * (ton + toff) + tp)"
      "d \<le> real k * (real (nat n) * (ton + toff) + tp)"
      "\<forall>i<k. real i * (real (nat n) * (ton + toff) + tp) < d" by blast
  from ran(3) q have "GPIO_output PIEZO_PIN LOW w2 = (Inr (), w')" by simp
  from GPIO_output_ok[OF k(1) this] have "trace w' = trace w2 @ [Output PIEZO_PIN LOW]"
    "now w' = now w2" by simp_all
  with k(2,3) w1 have "trace w' = trace w @ (if initialized w then [] else gpio_setup_calls) @
           concat (replicate k (beep_group_calls n ton toff tp)) @ [Output PIEZO_PIN LOW] \<and>
         now w' = now w + real k * (real (nat n) * (ton + toff) + tp)" by simp
  with k(4,5) show ?thesis by blast
qed

lemma alarm_flash_pattern:
  assumes "NEOPIXEL_AVAILABLE w" "alarm_flash d ton toff n tp c w = Some (Inr (), w')"
  shows "\<exists>k. trace w' = trace w @ (case pixels w of None \<Rightarrow> strip_setup_calls | Some s \<Rightarrow> []) @
           concat (replicate k (flash_group_calls n ton toff tp c)) @ [Fill black, Show] \<and>
         now w' = now w + real k * (real (nat n) * (ton + toff) + tp) \<and>
         d \<le> real k * (real (nat n) * (ton + toff) + tp) \<and>
         (\<forall>i<k. real i * (real (nat n) * (ton + toff) + tp) < d)"
  using assms(2,1)
proof (cases rule: alarm_flash_cases)
  case (init_raised e)
  from init_raised(2) have False by simp
  then show ?thesis ..
next
  case (ran p w1 r0 w2 q)
  from ran(4) have "q = Inr () \<and> r0 = Inr ()" by (cases q) auto
  then have q: "q = Inr ()" and r0: "r0 = Inr ()" by simp_all
  from init_pixels_time[OF ran(1)] have t: "now w1 = now w" .
  have "\<exists>s. pixels w1 = Some s \<and>
      trace w1 = trace w @ (case pixels w of None \<Rightarrow> strip_setup_calls | Some s \<Rightarrow> [])"
  proof (cases "pixels w")
    case None
    with init_pixels_ok[OF assms(1) ran(1)] show ?thesis
      by (simp add: strip_setup_calls_def strip0_def)
  next
    case (Some s)
    with init_pixels_ok[OF assms(1) ran(1)] show ?thesis by simp
  qed
  then obtain s where w1: "pixels w1 = Some s"
    "trace w1 = trace w @ (case pixels w of None \<Rightarrow> strip_setup_calls | Some s \<Rightarrow> [])"
    by blast
  from ran(2) r0 have "while_elapsed (now w) d (flash_group ton toff n tp c) w1 = Some (Inr (), w2)"
    by simp
  then have "\<exists>k. pixels w2 = Some s \<and>
      trace w2 = trace w1 @ concat (replicate k (flash_group_calls n ton toff tp c)) \<and>
      now w2 = now w1 + real k * (real (nat n) * (ton + toff) + tp) \<and>
      d \<le> real k * (real (nat n) * (ton + toff) + tp) \<and>
      (\<forall>i<k. real i * (real (nat n) * (ton + toff) + tp) < d)"
  proof (rule while_groups)
    show "pixels w1 = Some s" by (rule w1(1))
    show "now w1 = now w" by (rule t)
  next
    fix v v1 assume v: "pixels v = Some s" "flash_group ton toff n tp c v = (Inr (), v1)"
    from flash_group_keptP[OF v(2)] v(1) have "pixels v1 = Some s"
      by (simp add: keptP_def kept_def)
    with flash_group_ok[OF v] flash_group_adv[OF v(2)]
    show "pixels v1 = Some s \<and> trace v1 = trace v @ flash_group_calls n ton toff tp c \<and>
      now v1 = now v + (real (nat n) * (ton + toff) + tp)" by simp
  qed
  then obtain k where k: "pixels w2 = Some s"
      "trace w2 = trace w1 @ concat (replicate k (flash_group_calls n ton toff tp c))"
      "now w2 = now w1 + real k * (real (nat n) * (ton + toff) + tp)"
      "d \<le> real k * (real (nat n) * (ton + toff) + tp)"
      "\<forall>i<k. real i * (real (nat n) * (ton + toff) + tp) < d" by blast
  from ran(3) q have "set_all black w2 = (Inr (), w')" by simp
  from set_all_ok[OF k(1) this] have "trace w' = trace w2 @ [Fill black, Show]"
    "now w' = now w2" by simp_all
  with k(2,3) w1(2) t have "trace w' = trace w @ (case pixels w of None \<Rightarrow> strip_setup_calls | Some s \<Rightarrow> []) @
           concat (replicate k (flash_group_calls n ton toff tp c)) @ [Fill black, Show] \<and>
         now w' = now w + real k * (real (nat n) * (ton + toff) + tp)" by simp
  with k(4,5) show ?thesis by blast
qed

lemma piezo_run:
  "alarm (3/2) 1 (1/4) (1/4) (1/2) piezo_on =
     Some (Inr (), piezo_on\<lparr>now := 2,
       trace := gpio_setup_calls @ concat (replicate 2 (beep_group_calls 1 (1/4) (1/4) (1/2))) @
         [Output PIEZO_PIN LOW],
       calls := 14, initialized := True\<rparr>)"
  by (simp add: eval_defs while_elapsed.simps beep_group_calls_def beep_calls_def numeral_2_eq_2)

lemma pixel_run:
  "alarm_flash (3/2) (1/4) (1/4) 1 (1/2) (255, 0, 0) pixel_on =
     Some (Inr (), pixel_on\<lparr>now := 2,
       trace := strip_setup_calls @
         concat (replicate 2 (flash_group_calls 1 (1/4) (1/4) (1/2) (255, 0, 0))) @
         [Fill black, Show],
       calls := 19, pixels := Some strip0, buffer := replicate 8 black,
       leds := replicate 8 black\<rparr>)"
  by (simp add: eval_defs while_elapsed.simps flash_group_calls_def flash_calls_def numeral_2_eq_2)

lemma run_facts:
  "RPI_AVAILABLE piezo_on" "NEOPIXEL_AVAILABLE pixel_on" "\<not> initialized piezo_on"
  "pixels pixel_on = None" "now piezo_on = 0" "now pixel_on = 0" "trace piezo_on = []"
  "trace pixel_on = []"
  by (simp_all add: eval_defs)

lemma alarm_pattern_happens:
  assumes "RPI_AVAILABLE w" "faulty w = (\<lambda>i. False)" "0 \<le> n" "0 \<le> ton" "0 \<le> toff" "0 \<le> tp"
    "0 < real_of_int n * (ton + toff) + tp"
  shows "\<exists>w'. alarm d n ton toff tp w = Some (Inr (), w')"
  using assms(1,2)
proof (rule alarm_normal)
  fix w1 r0 w2
  assume "faulty w1 = (\<lambda>i. False)"
    "while_elapsed (now w1) d (beep_group n ton toff tp) w1 = Some (r0, w2)"
  with returns_beep_group[OF assms(4,5,6)]
  show "r0 = Inr () \<and> faulty w2 = (\<lambda>i. False)" by (intro while_returns)
next
  from assms(3,7) show "alarm d n ton toff tp w \<noteq> None" by (rule alarm_terminates)
qed

lemma alarm_flash_pattern_happens:
  assumes "NEOPIXEL_AVAILABLE w" "faulty w = (\<lambda>i. False)" "0 \<le> n" "0 \<le> ton" "0 \<le> toff"
    "0 \<le> tp" "0 < real_of_int n * (ton + toff) + tp"
  shows "\<exists>w'. alarm_flash d ton toff n tp c w = Some (Inr (), w')"
  using assms(1,2)
proof (rule alarm_flash_normal)
  fix w1 r0 w2
  assume "faulty w1 = (\<lambda>i. False)"
    "while_elapsed (now w) d (flash_group ton toff n tp c) w1 = Some (r0, w2)"
  with returns_flash_group[OF assms(4,5,6)]
  show "r0 = Inr () \<and> faulty w2 = (\<lambda>i. False)" by (intro while_returns)
next
  from assms(3,7) show "alarm_flash d ton toff n tp c w \<noteq> None"
    by (rule alarm_flash_terminates)
qed

text \<open>
  C5 (pattern shape). Hardware available: the trace of a call that returns normally is
  the lazy initialisation (if any), then \<open>k\<close> whole groups, then the force-off write,
  where one group is \<open>N\<close> times (write ACTIVE, sleep \<open>Ton\<close>, write INACTIVE, sleep
  \<open>Toff\<close>) followed by one sleep of \<open>Tpause\<close> (for the strip a write is a fill and its
  push). The groups repeat until the elapsed time reaches the duration: every group
  started with elapsed time below \<open>D\<close>, and after the last one it is at least \<open>D\<close>.
  The number of toggle writes of the loop is a multiple of \<open>2N\<close>. Such a normal
  return happens whenever no external call raises, the times are non-negative and the
  cycle time of a count \<open>N \<ge> 0\<close> is positive.
\<close>

theorem pattern_shape:
  "(RPI_AVAILABLE w \<longrightarrow> alarm d n ton toff tp w = Some (Inr (), w') \<longrightarrow>
      (\<exists>k. trace w' = trace w @ (if initialized w then [] else gpio_setup_calls) @
              concat (replicate k (beep_group_calls n ton toff tp)) @ [Output PIEZO_PIN LOW] \<and>
            d \<le> real k * (real (nat n) * (ton + toff) + tp) \<and>
            (\<forall>i<k. real i * (real (nat n) * (ton + toff) + tp) < d) \<and>
            2 * n dvd int (length (filter is_output
              (concat (replicate k (beep_group_calls n ton toff tp))))))) \<and>
   (NEOPIXEL_AVAILABLE v \<longrightarrow> alarm_flash d ton toff n tp c v = Some (Inr (), v') \<longrightarrow>
      (\<exists>k. trace v' = trace v @ (case pixels v of None \<Rightarrow> strip_setup_calls | Some s \<Rightarrow> []) @
              concat (replicate k (flash_group_calls n ton toff tp c)) @ [Fill black, Show] \<and>
            d \<le> real k * (real (nat n) * (ton + toff) + tp) \<and>
            (\<forall>i<k. real i * (real (nat n) * (ton + toff) + tp) < d) \<and>
            2 * n dvd int (length (filter is_fill
              (concat (replicate k (flash_group_calls n ton toff tp c))))))) \<and>
   (RPI_AVAILABLE w \<longrightarrow> faulty w = (\<lambda>i. False) \<longrightarrow> 0 \<le> n \<longrightarrow>
      0 \<le> ton \<longrightarrow> 0 \<le> toff \<longrightarrow> 0 \<le> tp \<longrightarrow> 0 < real_of_int n * (ton + toff) + tp \<longrightarrow>
      (\<exists>u. alarm d n ton toff tp w = Some (Inr (), u))) \<and>
   (NEOPIXEL_AVAILABLE v \<longrightarrow> faulty v = (\<lambda>i. False) \<longrightarrow> 0 \<le> n \<longrightarrow>
      0 \<le> ton \<longrightarrow> 0 \<le> toff \<longrightarrow> 0 \<le> tp \<longrightarrow> 0 < real_of_int n * (ton + toff) + tp \<longrightarrow>
      (\<exists>u. alarm_flash d ton toff n tp c v = Some (Inr (), u)))"
proof (intro conjI impI)
  assume "RPI_AVAILABLE w" "alarm d n ton toff tp w = Some (Inr (), w')"
  from alarm_pattern[OF this] obtain k where
    "trace w' = trace w @ (if initialized w then [] else gpio_setup_calls) @
       concat (replicate k (beep_group_calls n ton toff tp)) @ [Output PIEZO_PIN LOW]"
    "d \<le> real k * (real (nat n) * (ton + toff) + tp)"
    "\<forall>i<k. real i * (real (nat n) * (ton + toff) + tp) < d" by blast
  moreover have "2 * n dvd int (length (filter is_output
      (concat (replicate k (beep_group_calls n ton toff tp)))))"
    by (simp only: filter_concat_replicate beep_group_toggles toggles_dvd)
  ultimately show "\<exists>k. trace w' = trace w @ (if initialized w then [] else gpio_setup_calls) @
              concat (replicate k (beep_group_calls n ton toff tp)) @ [Output PIEZO_PIN LOW] \<and>
            d \<le> real k * (real (nat n) * (ton + toff) + tp) \<and>
            (\<forall>i<k. real i * (real (nat n) * (ton + toff) + tp) < d) \<and>
            2 * n dvd int (length (filter is_output
              (concat (replicate k (beep_group_calls n ton toff tp)))))" by blast
next
  assume "NEOPIXEL_AVAILABLE v" "alarm_flash d ton toff n tp c v = Some (Inr (), v')"
  from alarm_flash_pattern[OF this] obtain k where
    "trace v' = trace v @ (case pixels v of None \<Rightarrow> strip_setup_calls | Some s \<Rightarrow> []) @
       concat (replicate k (flash_group_calls n ton toff tp c)) @ [Fill black, Show]"
    "d \<le> real k * (real (nat n) * (ton + toff) + tp)"
    "\<forall>i<k. real i * (real (nat n) * (ton + toff) + tp) < d" by blast
  moreover have "2 * n dvd int (length (filter is_fill
      (concat (replicate k (flash_group_calls n ton toff tp c)))))"
    by (simp only: filter_concat_replicate flash_group_toggles toggles_dvd)
  ultimately show "\<exists>k. trace v' = trace v @ (case pixels v of None \<Rightarrow> strip_setup_calls | Some s \<Rightarrow> []) @
              concat (replicate k (flash_group_calls n ton toff tp c)) @ [Fill black, Show] \<and>
            d \<le> real k * (real (nat n) * (ton + toff) + tp) \<and>
            (\<forall>i<k. real i * (real (nat n) * (ton + toff) + tp) < d) \<and>
            2 * n dvd int (length (filter is_fill
              (concat (replicate k (flash_group_calls n ton toff tp c)))))" by blast
next
  assume "RPI_AVAILABLE w" "faulty w = (\<lambda>i. False)" "0 \<le> n" "0 \<le> ton" "0 \<le> toff"
    "0 \<le> tp" "0 < real_of_int n * (ton + toff) + tp"
  then show "\<exists>u. alarm d n ton toff tp w = Some (Inr (), u)" by (rule alarm_pattern_happens)
next
  assume "NEOPIXEL_AVAILABLE v" "faulty v = (\<lambda>i. False)" "0 \<le> n" "0 \<le> ton" "0 \<le> toff"
    "0 \<le> tp" "0 < real_of_int n * (ton + toff) + tp"
  then show "\<exists>u. alarm_flash d ton toff n tp c v = Some (Inr (), u)"
    by (rule alarm_flash_pattern_happens)
qed

theorem pattern_shape_witness:
  "RPI_AVAILABLE piezo_on \<and>
   alarm (3/2) 1 (1/4) (1/4) (1/2) piezo_on =
     Some (Inr (), piezo_on\<lparr>now := 2,
       trace := gpio_setup_calls @ concat (replicate 2 (beep_group_calls 1 (1/4) (1/4) (1/2))) @
         [Output PIEZO_PIN LOW],
       calls := 14, initialized := True\<rparr>) \<and>
   (\<exists>k. 2 * 1 dvd int (length (filter is_output
       (concat (replicate k (beep_group_calls 1 (1/4) (1/4) (1/2))))))) \<and>
   NEOPIXEL_AVAILABLE pixel_on \<and>
   alarm_flash (3/2) (1/4) (1/4) 1 (1/2) (255, 0, 0) pixel_on =
     Some (Inr (), pixel_on\<lparr>now := 2,
       trace := strip_setup_calls @
         concat (replicate 2 (flash_group_calls 1 (1/4) (1/4) (1/2) (255, 0, 0))) @
         [Fill black, Show],
       calls := 19, pixels := Some strip0, buffer := replicate 8 black,
       leds := replicate 8 black\<rparr>) \<and>
   (\<exists>k. 2 * 1 dvd int (length (filter is_fill
       (concat (replicate k (flash_group_calls 1 (1/4) (1/4) (1/2) (255, 0, 0)))))))"
  using pattern_shape[where w = piezo_on and v = pixel_on and d = "3/2" and n = 1
      and ton = "1/4" and toff = "1/4" and tp = "1/2" and c = "(255, 0, 0)"
      and w' = "piezo_on\<lparr>now := 2,
       trace := gpio_setup_calls @ concat (replicate 2 (beep_group_calls 1 (1/4) (1/4) (1/2))) @
         [Output PIEZO_PIN LOW],
       calls := 14, initialized := True\<rparr>"
      and v' = "pixel_on\<lparr>now := 2,
       trace := strip_setup_calls @
         concat (replicate 2 (flash_group_calls 1 (1/4) (1/4) (1/2) (255, 0, 0))) @
         [Fill black, Show],
       calls := 19, pixels := Some strip0, buffer := replicate 8 black,
       leds := replicate 8 black\<rparr>"]
    piezo_run pixel_run run_facts(1,2)
  by blast

text \<open>
  C6 (duration overshoot bound). Time is the sum of the executed sleeps. For
  \<open>D > 0\<close>, a count \<open>N \<ge> 0\<close> and non-negative \<open>Ton\<close>, \<open>Toff\<close>, \<open>Tpause\<close>, every call
  that returns, normally or with an exception, in mock mode or on hardware, has
  blocked for at most \<open>D + N \<times> (Ton + Toff) + Tpause\<close>: the elapsed time is tested
  between groups only.
\<close>

theorem duration_overshoot_bound:
  "(0 < d \<longrightarrow> 0 \<le> n \<longrightarrow> 0 \<le> ton \<longrightarrow> 0 \<le> toff \<longrightarrow> 0 \<le> tp \<longrightarrow>
      alarm d n ton toff tp w = Some (r, w') \<longrightarrow>
      now w' - now w \<le> d + (real_of_int n * (ton + toff) + tp)) \<and>
   (0 < d \<longrightarrow> 0 \<le> n \<longrightarrow> 0 \<le> ton \<longrightarrow> 0 \<le> toff \<longrightarrow> 0 \<le> tp \<longrightarrow>
      alarm_flash d ton toff n tp c v = Some (q, v') \<longrightarrow>
      now v' - now v \<le> d + (real_of_int n * (ton + toff) + tp))"
  using alarm_overshoot alarm_flash_overshoot by blast

theorem duration_overshoot_bound_witness:
  "(0 :: real) < 3/2 \<and> (0 :: int) \<le> 1 \<and> (0 :: real) \<le> 1/4 \<and> (0 :: real) \<le> 1/2 \<and>
   alarm (3/2) 1 (1/4) (1/4) (1/2) piezo_on =
     Some (Inr (), piezo_on\<lparr>now := 2,
       trace := gpio_setup_calls @ concat (replicate 2 (beep_group_calls 1 (1/4) (1/4) (1/2))) @
         [Output PIEZO_PIN LOW],
       calls := 14, initialized := True\<rparr>) \<and>
   now (piezo_on\<lparr>now := 2,
       trace := gpio_setup_calls @ concat (replicate 2 (beep_group_calls 1 (1/4) (1/4) (1/2))) @
         [Output PIEZO_PIN LOW],
       calls := 14, initialized := True\<rparr>) - now piezo_on
     \<le> 3/2 + (real_of_int 1 * (1/4 + 1/4) + 1/2) \<and>
   alarm_flash (3/2) (1/4) (1/4) 1 (1/2) (255, 0, 0) pixel_on =
     Some (Inr (), pixel_on\<lparr>now := 2,
       trace := strip_setup_calls @
         concat (replicate 2 (flash_group_calls 1 (1/4) (1/4) (1/2) (255, 0, 0))) @
         [Fill black, Show],
       calls := 19, pixels := Some strip0, buffer := replicate 8 black,
       leds := replicate 8 black\<rparr>) \<and>
   now (pixel_on\<lparr>now := 2,
       trace := strip_setup_calls @
         concat (replicate 2 (flash_group_calls 1 (1/4) (1/4) (1/2) (255, 0, 0))) @
         [Fill black, Show],
       calls := 19, pixels := Some strip0, buffer := replicate 8 black,
       leds := replicate 8 black\<rparr>) - now pixel_on
     \<le> 3/2 + (real_of_int 1 * (1/4 + 1/4) + 1/2)"
proof -
  have 1: "(0 :: real) < 3/2" "(0 :: int) \<le> 1" "(0 :: real) \<le> 1/4" "(0 :: real) \<le> 1/2"
    by simp_all
  from duration_overshoot_bound[where w = piezo_on and v = pixel_on and d = "3/2" and n = 1
      and ton = "1/4" and toff = "1/4" and tp = "1/2" and c = "(255, 0, 0)"
      and r = "Inr ()" and q = "Inr ()"
      and w' = "piezo_on\<lparr>now := 2,
       trace := gpio_setup_calls @ concat (replicate 2 (beep_group_calls 1 (1/4) (1/4) (1/2))) @
         [Output PIEZO_PIN LOW],
       calls := 14, initialized := True\<rparr>"
      and v' = "pixel_on\<lparr>now := 2,
       trace := strip_setup_calls @
         concat (replicate 2 (flash_group_calls 1 (1/4) (1/4) (1/2) (255, 0, 0))) @
         [Fill black, Show],
       calls := 19, pixels := Some strip0, buffer := replicate 8 black,
       leds := replicate 8 black\<rparr>"]
    piezo_run pixel_run 1
  show ?thesis by blast
qed

text \<open>
  C10 (termination). Time is the sum of the executed sleeps. For a count \<open>N \<ge> 0\<close> and
  a strictly positive cycle time \<open>N \<times> (Ton + Toff) + Tpause\<close>, \<open>alarm\<close> and
  \<open>alarm_flash\<close> return for every duration and every world, and their pattern loop,
  started at elapsed time zero, ends within \<open>\<lceil>D / cycle time\<rceil>\<close> iterations: cut off
  after that many iterations it gives the result of the loop itself.
\<close>

theorem alarm_termination:
  "(0 \<le> n \<longrightarrow> 0 < real_of_int n * (ton + toff) + tp \<longrightarrow>
      alarm d n ton toff tp w \<noteq> None \<and>
      while_elapsed (now v) d (beep_group n ton toff tp) v \<noteq> None \<and>
      unroll (nat \<lceil>d / (real_of_int n * (ton + toff) + tp)\<rceil>) (now v) d
        (beep_group n ton toff tp) v =
      while_elapsed (now v) d (beep_group n ton toff tp) v) \<and>
   (0 \<le> n \<longrightarrow> 0 < real_of_int n * (ton + toff) + tp \<longrightarrow>
      alarm_flash d ton toff n tp c w \<noteq> None \<and>
      while_elapsed (now v) d (flash_group ton toff n tp c) v \<noteq> None \<and>
      unroll (nat \<lceil>d / (real_of_int n * (ton + toff) + tp)\<rceil>) (now v) d
        (flash_group ton toff n tp c) v =
      while_elapsed (now v) d (flash_group ton toff n tp c) v)"
proof (intro conjI impI)
  assume a: "0 \<le> n" "0 < real_of_int n * (ton + toff) + tp"
  from a show "alarm d n ton toff tp w \<noteq> None" by (rule alarm_terminates)
  from a show "alarm_flash d ton toff n tp c w \<noteq> None" by (rule alarm_flash_terminates)
  from beep_loop_enough[OF a refl, where d = d and u = v]
  show "while_elapsed (now v) d (beep_group n ton toff tp) v \<noteq> None"
    "unroll (nat \<lceil>d / (real_of_int n * (ton + toff) + tp)\<rceil>) (now v) d
        (beep_group n ton toff tp) v =
      while_elapsed (now v) d (beep_group n ton toff tp) v" by auto
  from flash_loop_enough[OF a refl, where d = d and u = v and c = c]
  show "while_elapsed (now v) d (flash_group ton toff n tp c) v \<noteq> None"
    "unroll (nat \<lceil>d / (real_of_int n * (ton + toff) + tp)\<rceil>) (now v) d
        (flash_group ton toff n tp c) v =
      while_elapsed (now v) d (flash_group ton toff n tp c) v" by auto
qed

theorem alarm_termination_witness:
  "(0 :: int) \<le> 1 \<and> 0 < real_of_int 1 * (1/4 + 1/4) + 1/2 \<and>
   alarm (3/2) 1 (1/4) (1/4) (1/2) piezo_on \<noteq> None \<and>
   unroll (nat \<lceil>(3/2) / (real_of_int 1 * (1/4 + 1/4) + 1/2)\<rceil>) (now piezo_on) (3/2)
        (beep_group 1 (1/4) (1/4) (1/2)) piezo_on =
      while_elapsed (now piezo_on) (3/2) (beep_group 1 (1/4) (1/4) (1/2)) piezo_on \<and>
   alarm_flash (3/2) (1/4) (1/4) 1 (1/2) (255, 0, 0) pixel_on \<noteq> None \<and>
   while_elapsed (now pixel_on) (3/2) (flash_group (1/4) (1/4) 1 (1/2) (255, 0, 0)) pixel_on
     \<noteq> None"
proof -
  have 1: "(0 :: int) \<le> 1" "0 < real_of_int 1 * (1/4 + 1/4) + 1/2" by simp_all
  from alarm_termination[where w = piezo_on and v = piezo_on and d = "3/2" and n = 1
      and ton = "1/4" and toff = "1/4" and tp = "1/2" and c = "(255, 0, 0)"]
    alarm_termination[where w = pixel_on and v = pixel_on and d = "3/2" and n = 1
      and ton = "1/4" and toff = "1/4" and tp = "1/2" and c = "(255, 0, 0)"] 1
  show ?thesis by blast
qed

end
